theory Spec2Isabelle
  imports Main
begin

text \<open>
  The class \<open>ApiController\<close> is present twice. In \<open>src/controllers/ApiController.ts\<close> the
  method \<open>getStockHistoryBySymbol\<close> scans the history stream in callbacks written inside
  the method; the definitions taken from that file carry the suffix \<open>Inline\<close>. In the other
  file the scan is done by a class \<open>HistorySearcher\<close>; the definitions taken from it carry
  the names of the source as they are. \<open>getStockBySymbol\<close> and \<open>compareStockBySymbols\<close>
  are the same in both files.
\<close>

section \<open>Numbers of the JavaScript runtime\<close>

text \<open>
  A JavaScript number is an IEEE 754 binary64 value. \<open>Fin m e\<close> is the finite value
  \<open>m * 2 ^ e\<close>; every operation below returns it in lowest terms (\<open>m\<close> odd, or
  \<open>Fin 0 0\<close>). The sign of zero is not kept.
\<close>

datatype jsnum = NaN | PosInf | NegInf | Fin int int

function norm :: "int \<Rightarrow> int \<Rightarrow> jsnum" where
  "norm m e = (if m = 0 then Fin 0 0 else if even m then norm (m div 2) (e + 1) else Fin m e)"
  by pat_completeness auto
termination
  by (relation "measure (\<lambda>(m, e). nat \<bar>m\<bar>)") auto

declare norm.simps [simp del]

text \<open>The number of binary digits of a positive integer.\<close>

function bits :: "int \<Rightarrow> int" where
  "bits a = (if a \<le> 0 then 0 else 1 + bits (a div 2))"
  by pat_completeness auto
termination
  by (relation "measure nat") auto

declare bits.simps [simp del]

text \<open>\<open>scale a k\<close> is \<open>a * 2 ^ k\<close> for \<open>k \<ge> 0\<close> and \<open>a\<close> otherwise.\<close>

definition scale :: "int \<Rightarrow> int \<Rightarrow> int" where
  "scale a k = (if 0 \<le> k then a * 2 ^ nat k else a)"

text \<open>
  \<open>floor_log2 a q\<close>, for \<open>a, q > 0\<close>, is the exponent \<open>E\<close> with
  \<open>2 ^ E \<le> a / q < 2 ^ (E + 1)\<close>.
\<close>

definition floor_log2 :: "int \<Rightarrow> int \<Rightarrow> int" where
  "floor_log2 a q =
     (let d = bits a - bits q
      in if scale q d \<le> scale a (- d) then d else d - 1)"

text \<open>
  Rounding of the exact ratio \<open>p / q\<close> (\<open>q > 0\<close>) to the nearest binary64 value, ties to the
  even significand: 53 significant bits, least exponent \<open>-1074\<close>, overflow to infinity
  from \<open>2 ^ 1024\<close> on.
\<close>

definition round_ratio :: "int \<Rightarrow> int \<Rightarrow> jsnum" where
  "round_ratio p q =
     (if p = 0 then Fin 0 0
      else let a = \<bar>p\<bar>;
               lsb = max (floor_log2 a q - 52) (- 1074);
               num = scale a (- lsb);
               den = scale q lsb;
               f = num div den;
               r = num mod den;
               m = (if 2 * r < den then f
                    else if den < 2 * r then f + 1
                    else if even f then f else f + 1)
           in if 0 \<le> lsb \<and> 2 ^ 1024 \<le> m * 2 ^ nat lsb
              then (if p < 0 then NegInf else PosInf)
              else norm (if p < 0 then - m else m) lsb)"

text \<open>The exact value \<open>m * 2 ^ e\<close> as a ratio, then rounded.\<close>

definition round_dyadic :: "int \<Rightarrow> int \<Rightarrow> jsnum" where
  "round_dyadic m e = round_ratio (scale m e) (scale 1 (- e))"

text \<open>The operator \<open>*\<close> on numbers.\<close>

fun js_mul :: "jsnum \<Rightarrow> jsnum \<Rightarrow> jsnum" where
  "js_mul (Fin m1 e1) (Fin m2 e2) = round_dyadic (m1 * m2) (e1 + e2)"
| "js_mul NaN _ = NaN"
| "js_mul _ NaN = NaN"
| "js_mul (Fin m e) PosInf = (if m = 0 then NaN else if 0 < m then PosInf else NegInf)"
| "js_mul (Fin m e) NegInf = (if m = 0 then NaN else if 0 < m then NegInf else PosInf)"
| "js_mul PosInf (Fin m e) = (if m = 0 then NaN else if 0 < m then PosInf else NegInf)"
| "js_mul NegInf (Fin m e) = (if m = 0 then NaN else if 0 < m then NegInf else PosInf)"
| "js_mul PosInf PosInf = PosInf"
| "js_mul PosInf NegInf = NegInf"
| "js_mul NegInf PosInf = NegInf"
| "js_mul NegInf NegInf = PosInf"

text \<open>The operator \<open>-\<close> on numbers.\<close>

fun js_sub :: "jsnum \<Rightarrow> jsnum \<Rightarrow> jsnum" where
  "js_sub (Fin m1 e1) (Fin m2 e2) =
     (let e = min e1 e2 in round_dyadic (scale m1 (e1 - e) - scale m2 (e2 - e)) e)"
| "js_sub NaN _ = NaN"
| "js_sub _ NaN = NaN"
| "js_sub (Fin m e) PosInf = NegInf"
| "js_sub (Fin m e) NegInf = PosInf"
| "js_sub PosInf (Fin m e) = PosInf"
| "js_sub NegInf (Fin m e) = NegInf"
| "js_sub PosInf PosInf = NaN"
| "js_sub PosInf NegInf = PosInf"
| "js_sub NegInf PosInf = NegInf"
| "js_sub NegInf NegInf = NaN"

text \<open>
  \<open>Number(x.toFixed(2))\<close>. Below \<open>10 ^ 21\<close> in magnitude, \<open>toFixed(2)\<close> prints
  \<open>n / 100\<close> for the integer \<open>n\<close> nearest to \<open>100 * \<bar>x\<bar>\<close>, the larger one of two, with
  the sign of \<open>x\<close> in front, and \<open>Number\<close> reads that decimal back to the nearest number.
  From \<open>10 ^ 21\<close> on, and for \<open>NaN\<close> and the infinities, \<open>toFixed\<close> prints the number
  itself, which \<open>Number\<close> reads back unchanged.
\<close>

definition toFixed2_n :: "int \<Rightarrow> int \<Rightarrow> int" where
  "toFixed2_n m e =
     (let num = 200 * scale \<bar>m\<bar> e + scale 1 (- e);
          den = 2 * scale 1 (- e)
      in num div den)"

fun Number_toFixed2 :: "jsnum \<Rightarrow> jsnum" where
  "Number_toFixed2 (Fin m e) =
     (if scale (10 ^ 21) (- e) \<le> scale \<bar>m\<bar> e then norm m e
      else round_ratio ((if m < 0 then - 1 else 1) * toFixed2_n m e) 100)"
| "Number_toFixed2 x = x"

section \<open>Errors, results and collaborators\<close>

text \<open>
  \<open>NotFoundError {field: value}\<close> and \<open>UnknownError\<close> are the two errors the controller
  builds itself; \<open>OtherError\<close> stands for any other subclass of \<open>BaseError\<close>, such as the
  ones the parameter validator returns.
\<close>

datatype BaseError = NotFoundError string string | UnknownError | OtherError string

text \<open>
  What the promise of a controller method gives: a \<open>ControllerSuccess\<close>, an array of errors,
  or nothing at all, when an exception leaves the method or one of its stream callbacks
  uncaught.
\<close>

datatype 'a response = ControllerSuccess 'a | Errors "BaseError list" | Uncaught

datatype ValidatationTypes =
  STRING | DATE | IS_NOT_WEEKEND | NOT_TODAY_OR_AFTER | DATE_INTERVAL | POSITIVE_NUMBER

text \<open>A check is a validation type with the name of the field and its value or values.\<close>

type_synonym check = "ValidatationTypes \<times> string \<times> string list"

text \<open>The calls a method makes to its collaborators, in the order they are issued.\<close>

datatype call = Validate "check list" | Yahoo string | Alpha string

text \<open>A value produced by \<open>JSON.parse\<close>; the members of an object are in key order.\<close>

datatype json =
  JNull | JBool bool | JNumber jsnum | JString string | JArray "json list"
  | JObject "(string \<times> json) list"

record YahooQuote =
  symbol :: string
  regularMarketPrice :: jsnum
  regularMarketTime :: int

text \<open>
  The collaborators and the functions of the runtime the controller calls:
  \<^item> \<open>getValidationErrors\<close>: \<open>ParameterValidator.getValidationErrors\<close>, \<open>None\<close> for
    \<open>undefined\<close>;
  \<^item> \<open>yahooGetStockBySymbol\<close>: the quote provider, \<open>Inl c\<close> when it throws an error object
    whose \<open>code\<close> property is \<open>c\<close> (\<open>None\<close> when it has none);
  \<^item> \<open>getStockHistoryAsStream\<close>: the history provider, \<open>None\<close> when the call fails,
    otherwise the lines the stream delivers, in order, before it ends;
  \<^item> \<open>Date_toISOString s\<close>: \<open>new Date(s).toISOString()\<close>, \<open>None\<close> when it throws
    \<open>RangeError\<close>; \<open>DateOfMillis_toISOString\<close> the same from epoch milliseconds;
  \<^item> \<open>JSON_parse\<close>: \<open>JSON.parse\<close> on a text that starts with an opening brace, \<open>None\<close>
    when it throws \<open>SyntaxError\<close>, otherwise the members of the object in the order of
    \<open>Object.keys\<close>;
  \<^item> \<open>Number v\<close>: \<open>Number\<close> applied to a parsed value, or to \<open>undefined\<close> (\<open>None\<close>);
    \<open>NumberOfString\<close>: \<open>Number\<close> applied to a string;
  \<^item> \<open>toUpperCase\<close>: \<open>String.prototype.toUpperCase\<close>.
\<close>

record env =
  getValidationErrors :: "check list \<Rightarrow> BaseError list option"
  yahooGetStockBySymbol :: "string \<Rightarrow> string option + YahooQuote"
  getStockHistoryAsStream :: "string \<Rightarrow> string list option"
  Date_toISOString :: "string \<Rightarrow> string option"
  DateOfMillis_toISOString :: "int \<Rightarrow> string option"
  JSON_parse :: "string \<Rightarrow> (string \<times> json) list option"
  Number :: "json option \<Rightarrow> jsnum"
  NumberOfString :: "string \<Rightarrow> jsnum"
  toUpperCase :: "string \<Rightarrow> string"

section \<open>Quote lookup and comparison\<close>

record GetStockBySymbol =
  name :: string
  lastPrice :: jsnum
  pricedAt :: string

text \<open>
  \<open>getStockBySymbol\<close>. The provider's time is in whole seconds, so appending \<open>'000'\<close> to
  its digits multiplies it by 1000. Every exception of the \<open>try\<close> block, the provider's
  or the \<open>RangeError\<close> of \<open>toISOString\<close>, reaches the \<open>catch\<close>, which tells a
  not-found from the rest by the \<open>code\<close> of the error.
\<close>

definition getStockBySymbol :: "env \<Rightarrow> string \<Rightarrow> call list \<times> GetStockBySymbol response" where
  "getStockBySymbol env stock_name =
     (let checks = [(STRING, ''stock_name'', [stock_name])]
      in case getValidationErrors env checks of
           Some validationErrors \<Rightarrow> ([Validate checks], Errors validationErrors)
         | None \<Rightarrow>
             ([Validate checks, Yahoo stock_name],
              case yahooGetStockBySymbol env stock_name of
                Inr result \<Rightarrow>
                  (case DateOfMillis_toISOString env (regularMarketTime result * 1000) of
                     Some isoText \<Rightarrow>
                       ControllerSuccess
                         \<lparr>name = symbol result, lastPrice = regularMarketPrice result,
                          pricedAt = isoText\<rparr>
                   | None \<Rightarrow> Errors [UnknownError])
              | Inl code \<Rightarrow>
                  (if code = Some ''Not Found''
                   then Errors [NotFoundError ''stock_name'' stock_name]
                   else Errors [UnknownError])))"

text \<open>
  The loop of \<open>compareStockBySymbols\<close> over \<open>[stock_name, ...stocks]\<close>: the calls made so
  far, \<open>successArray\<close> and \<open>errorArray\<close> are carried from one symbol to the next. A result
  that is not a \<open>ControllerSuccess\<close> is spread into \<open>errorArray\<close>; \<open>getStockBySymbol\<close>
  never leaves an exception uncaught, so the third case adds nothing.
\<close>

fun compareLoop ::
  "env \<Rightarrow> string list \<Rightarrow> call list \<times> GetStockBySymbol list \<times> BaseError list \<Rightarrow>
   call list \<times> GetStockBySymbol list \<times> BaseError list" where
  "compareLoop env [] acc = acc"
| "compareLoop env (stock # rest) (calls, successArray, errorArray) =
     (let (cs, result) = getStockBySymbol env stock
      in compareLoop env rest
           (case result of
              ControllerSuccess r \<Rightarrow> (calls @ cs, successArray @ [r], errorArray)
            | Errors es \<Rightarrow> (calls @ cs, successArray, errorArray @ es)
            | Uncaught \<Rightarrow> (calls @ cs, successArray, errorArray)))"

definition compareStockBySymbols ::
  "env \<Rightarrow> string \<Rightarrow> string list \<Rightarrow> call list \<times> GetStockBySymbol list response" where
  "compareStockBySymbols env stock_name stocks =
     (let (calls, successArray, errorArray) = compareLoop env (stock_name # stocks) ([], [], [])
      in (calls, if 0 < length errorArray then Errors errorArray
                 else ControllerSuccess successArray))"

section \<open>Scanning the history stream\<close>

text \<open>
  \<open>String.prototype.includes\<close>, \<open>endsWith\<close> and \<open>slice(0, -1)\<close> on strings as lists of
  characters; \<open>split('T')[0]\<close> is the part of a string before its first \<open>T\<close>.
\<close>

definition startsWith :: "string \<Rightarrow> string \<Rightarrow> bool" where
  "startsWith s p = (take (length p) s = p)"

fun includes_str :: "string \<Rightarrow> string \<Rightarrow> bool" where
  "includes_str [] p = (p = [])"
| "includes_str (c # cs) p = (startsWith (c # cs) p \<or> includes_str cs p)"

definition endsWith :: "string \<Rightarrow> string \<Rightarrow> bool" where
  "endsWith s p = (length p \<le> length s \<and> drop (length s - length p) s = p)"

definition slice_0_minus1 :: "string \<Rightarrow> string" where
  "slice_0_minus1 s = butlast s"

definition split_T_0 :: "string \<Rightarrow> string" where
  "split_T_0 s = takeWhile (\<lambda>c. c \<noteq> CHR ''T'') s"

record searchingState =
  reading :: bool
  ending :: bool

record HistoricPrices =
  opening' :: jsnum
  high :: jsnum
  low :: jsnum
  closing :: jsnum
  pricedAt :: string

record GetStockHistoryBySymbol =
  name :: string
  prices :: "HistoricPrices list"

text \<open>
  \<open>saidObj[label]\<close> for a value that is not \<open>null\<close> and one of the four labels, none of which
  is an index or a built-in property: the member of an object, \<open>undefined\<close> otherwise.
\<close>

fun member :: "json \<Rightarrow> string \<Rightarrow> json option" where
  "member (JObject kvs) k = map_of kvs k"
| "member _ k = None"

text \<open>
  One step of the \<open>map\<close> in \<open>formatJSONHistoryObject\<close>: \<open>None\<close> when reading a property of
  \<open>null\<close> throws \<open>TypeError\<close> or the key is not a date and \<open>toISOString\<close> throws
  \<open>RangeError\<close>.
\<close>

definition formatEntry :: "env \<Rightarrow> string \<times> json \<Rightarrow> HistoricPrices option" where
  "formatEntry env entry =
     (case entry of (key, saidObj) \<Rightarrow>
        if saidObj = JNull then None
        else (case Date_toISOString env key of
                None \<Rightarrow> None
              | Some isoText \<Rightarrow>
                  Some \<lparr>opening' = Number env (member saidObj ''1. open''),
                        high = Number env (member saidObj ''2. high''),
                        low = Number env (member saidObj ''3. low''),
                        closing = Number env (member saidObj ''4. close''),
                        pricedAt = isoText\<rparr>))"

definition formatJSONHistoryObject ::
  "env \<Rightarrow> (string \<times> json) list \<Rightarrow> HistoricPrices list option" where
  "formatJSONHistoryObject env unformatedObject = those (map (formatEntry env) unformatedObject)"

subsection \<open>\<open>HistorySearcher\<close>\<close>

text \<open>
  What a promise is rejected with: \<open>reject('stock')\<close> and \<open>reject('fromto')\<close> pass a string,
  a thrown exception passes an error object.
\<close>

datatype thrown = Reason string | Exception

text \<open>
  The searcher while the stream flows: its \<open>searchingState\<close>, the text of \<open>result.result\<close>,
  and how the promise was settled, if it was. Only the first \<open>resolve\<close> or \<open>reject\<close>
  settles a promise; the callback goes on after it, and the stream is not stopped.
\<close>

type_synonym searcher = "searchingState \<times> string \<times> (thrown + string) option"

definition resolve :: "'b \<Rightarrow> ('a + 'b) option \<Rightarrow> ('a + 'b) option" where
  "resolve v p = (case p of None \<Rightarrow> Some (Inr v) | Some r \<Rightarrow> Some r)"

definition reject :: "'a \<Rightarrow> ('a + 'b) option \<Rightarrow> ('a + 'b) option" where
  "reject e p = (case p of None \<Rightarrow> Some (Inl e) | Some r \<Rightarrow> Some r)"

definition addLineToResult :: "string \<Rightarrow> string \<Rightarrow> string" where
  "addLineToResult result line = result @ line"

definition isScanningThrougSearchingInterval :: "searchingState \<Rightarrow> bool" where
  "isScanningThrougSearchingInterval st = (reading st = True)"

definition removeLastCommaIfNecessary :: "string \<Rightarrow> string" where
  "removeLastCommaIfNecessary result =
     (if endsWith result '','' then slice_0_minus1 result else result)"

definition startReading :: "searchingState \<Rightarrow> searchingState" where
  "startReading st = st\<lparr>reading := True\<rparr>"

definition startLookingForLastObject :: "searchingState \<Rightarrow> searchingState" where
  "startLookingForLastObject st = st\<lparr>ending := True\<rparr>"

definition shouldIgnoreForPerformance :: "searchingState \<Rightarrow> bool" where
  "shouldIgnoreForPerformance st = (reading st = False)"

definition foundStartOfWantedInterval :: "string \<Rightarrow> string \<Rightarrow> bool" where
  "foundStartOfWantedInterval line firstDateToAppearInStream =
     (includes_str line firstDateToAppearInStream \<and> includes_str line ''{'')"

definition finishedReadingLastObject :: "searchingState \<Rightarrow> string \<Rightarrow> bool" where
  "finishedReadingLastObject st line = (ending st \<and> includes_str line ''}'')"

definition foundEndOfWantedInterval :: "string \<Rightarrow> string \<Rightarrow> bool" where
  "foundEndOfWantedInterval line lastDateToAppearInStream =
     (includes_str line lastDateToAppearInStream \<and> includes_str line ''{'')"

definition didntFoundStockInDatabase :: "string \<Rightarrow> bool" where
  "didntFoundStockInDatabase line = includes_str line ''Error Message''"

text \<open>The \<open>'data'\<close> callback of \<open>scanStreamForTimeInterval\<close>, statement by statement.\<close>

definition onData :: "string \<Rightarrow> string \<Rightarrow> searcher \<Rightarrow> string \<Rightarrow> searcher" where
  "onData firstDateToAppearInStream lastDateToAppearInStream s line =
     (case s of (st, result, promise) \<Rightarrow>
        let promise1 = (if didntFoundStockInDatabase line then reject (Reason ''stock'') promise
                        else promise);
            st1 = (if foundStartOfWantedInterval line firstDateToAppearInStream
                   then startReading st else st)
        in if shouldIgnoreForPerformance st1 then (st1, result, promise1)
           else
             let st2 = (if foundEndOfWantedInterval line lastDateToAppearInStream
                        then startLookingForLastObject st1 else st1);
                 result2 = (if isScanningThrougSearchingInterval st2
                            then addLineToResult result line else result)
             in if finishedReadingLastObject st2 line
                then (let result3 = removeLastCommaIfNecessary result2 @ ''}''
                      in (st2, result3, resolve result3 promise1))
                else (st2, result2, promise1))"

text \<open>
  \<open>scanStreamForTimeInterval\<close>: the callback runs on every line, then the \<open>'end'\<close> callback
  rejects with \<open>'fromto'\<close>; the promise holds what settled it first.
\<close>

definition scanStreamForTimeInterval :: "string list \<Rightarrow> string \<Rightarrow> string \<Rightarrow> thrown + string" where
  "scanStreamForTimeInterval historyStream firstDateToAppearInStream lastDateToAppearInStream =
     (case foldl (onData firstDateToAppearInStream lastDateToAppearInStream)
             (\<lparr>reading = False, ending = False\<rparr>, ''{'', None) historyStream of
        (st, result, promise) \<Rightarrow>
          (case reject (Reason ''fromto'') promise of Some r \<Rightarrow> r
           | None \<Rightarrow> Inl (Reason ''fromto'')))"

definition searchTimeIntervalInHistory ::
  "env \<Rightarrow> string list \<Rightarrow> string \<Rightarrow> string \<Rightarrow> thrown + HistoricPrices list" where
  "searchTimeIntervalInHistory env historyStream unformatedFromDate unformatedToDate =
     (case Date_toISOString env unformatedToDate of
        None \<Rightarrow> Inl Exception
      | Some toText \<Rightarrow>
          (case Date_toISOString env unformatedFromDate of
             None \<Rightarrow> Inl Exception
           | Some fromText \<Rightarrow>
               (case scanStreamForTimeInterval historyStream (split_T_0 toText)
                       (split_T_0 fromText) of
                  Inl e \<Rightarrow> Inl e
                | Inr result \<Rightarrow>
                    (case JSON_parse env result of
                       None \<Rightarrow> Inl Exception
                     | Some unformatedObject \<Rightarrow>
                         (case formatJSONHistoryObject env unformatedObject of
                            None \<Rightarrow> Inl Exception
                          | Some formated \<Rightarrow> Inr formated)))))"

text \<open>The eight checks of \<open>getStockHistoryBySymbol\<close>, the same in both files.\<close>

definition historyChecks :: "string \<Rightarrow> string \<Rightarrow> string \<Rightarrow> check list" where
  "historyChecks stock_name fromDate toDate =
     [(STRING, ''stock_name'', [stock_name]),
      (DATE, ''from'', [fromDate]),
      (DATE, ''to'', [toDate]),
      (IS_NOT_WEEKEND, ''from'', [fromDate]),
      (IS_NOT_WEEKEND, ''to'', [toDate]),
      (NOT_TODAY_OR_AFTER, ''from'', [fromDate]),
      (NOT_TODAY_OR_AFTER, ''to'', [toDate]),
      (DATE_INTERVAL, ''from_to'', [fromDate, toDate])]"

text \<open>
  \<open>getStockHistoryBySymbol\<close> of the controller that delegates to \<open>HistorySearcher\<close>. The
  \<open>catch\<close> tells the two rejections of the scan apart and turns everything else, a failed
  provider call included, into \<open>UnknownError\<close>.
\<close>

definition getStockHistoryBySymbol ::
  "env \<Rightarrow> string \<Rightarrow> string \<Rightarrow> string \<Rightarrow> call list \<times> GetStockHistoryBySymbol response" where
  "getStockHistoryBySymbol env stock_name fromDate toDate =
     (let checks = historyChecks stock_name fromDate toDate
      in case getValidationErrors env checks of
           Some validationErrors \<Rightarrow> ([Validate checks], Errors validationErrors)
         | None \<Rightarrow>
             ([Validate checks, Alpha stock_name],
              case getStockHistoryAsStream env stock_name of
                None \<Rightarrow> Errors [UnknownError]
              | Some historyStream \<Rightarrow>
                  (case searchTimeIntervalInHistory env historyStream fromDate toDate of
                     Inr formated \<Rightarrow>
                       ControllerSuccess
                         \<lparr>name = toUpperCase env stock_name, prices = formated\<rparr>
                   | Inl error \<Rightarrow>
                       if error = Reason ''fromto''
                       then Errors [NotFoundError ''from'' fromDate, NotFoundError ''to'' toDate]
                       else if error = Reason ''stock''
                       then Errors [NotFoundError ''stock_name'' stock_name]
                       else Errors [UnknownError])))"

subsection \<open>The callbacks written inside \<open>getStockHistoryBySymbol\<close>\<close>

text \<open>
  \<open>src/controllers/ApiController.ts\<close> scans in callbacks of its own. \<open>historyStream.pause()\<close> emits
  \<open>'pause'\<close> at once, so the \<open>'pause'\<close> callback runs inside the call, on the text
  gathered up to that statement, and no line is delivered after it: \<open>Paused t\<close> is the
  \<open>'data'\<close> callback calling \<open>pause()\<close> when \<open>stringResult\<close> is \<open>t\<close>.
\<close>

datatype flow = Flowing searchingState string | Paused string

definition onDataInline :: "string \<Rightarrow> string \<Rightarrow> searchingState \<Rightarrow> string \<Rightarrow> string \<Rightarrow> flow" where
  "onDataInline firstDateToAppearInStream lastDateToAppearInList searchingState stringResult line =
     (let hasError = includes_str line ''Error Message''
      in if hasError then Paused stringResult
         else
           let foundStartOfWantedInterval =
                 (includes_str line firstDateToAppearInStream \<and> includes_str line ''{'');
               st1 = (if foundStartOfWantedInterval then searchingState\<lparr>reading := True\<rparr>
                      else searchingState);
               isNotUsefull = (\<not> reading st1)
           in if isNotUsefull then Flowing st1 stringResult
              else
                let foundEndOfWantedInterval =
                      (includes_str line lastDateToAppearInList \<and> includes_str line ''{'');
                    st2 = (if foundEndOfWantedInterval then st1\<lparr>ending := True\<rparr> else st1);
                    stringResult2 = (if reading st2 then stringResult @ line else stringResult);
                    isEndOfTheLastObject = (ending st2 \<and> includes_str line ''},'')
                in if isEndOfTheLastObject then Paused (slice_0_minus1 stringResult2)
                   else Flowing st2 stringResult2)"

text \<open>The lines until the first \<open>pause()\<close>; \<open>None\<close> when the stream ends without one.\<close>

fun runStream :: "string \<Rightarrow> string \<Rightarrow> searchingState \<Rightarrow> string \<Rightarrow> string list \<Rightarrow> string option" where
  "runStream firstDate lastDate st stringResult [] = None"
| "runStream firstDate lastDate st stringResult (line # rest) =
     (case onDataInline firstDate lastDate st stringResult line of
        Paused t \<Rightarrow> Some t
      | Flowing st' stringResult' \<Rightarrow> runStream firstDate lastDate st' stringResult' rest)"

text \<open>
  The \<open>'pause'\<close> callback. It runs inside the stream, outside every \<open>try\<close>: an exception of
  \<open>JSON.parse\<close> or of the formatting is not caught and the promise is never settled. The
  formatting written in the callback is the map of \<open>formatJSONHistoryObject\<close>.
\<close>

definition onPause :: "env \<Rightarrow> string \<Rightarrow> string \<Rightarrow> GetStockHistoryBySymbol response" where
  "onPause env stock_name stringResult =
     (let stringResult1 = stringResult @ ''}'';
          hasError = (stringResult1 = ''{}'')
      in if hasError then Errors [NotFoundError ''stock_name'' stock_name]
         else case JSON_parse env stringResult1 of
                None \<Rightarrow> Uncaught
              | Some rawPricesObj \<Rightarrow>
                  (case formatJSONHistoryObject env rawPricesObj of
                     None \<Rightarrow> Uncaught
                   | Some pricesObj \<Rightarrow>
                       ControllerSuccess
                         \<lparr>name = toUpperCase env stock_name, prices = pricesObj\<rparr>))"

definition getStockHistoryBySymbolInline ::
  "env \<Rightarrow> string \<Rightarrow> string \<Rightarrow> string \<Rightarrow> call list \<times> GetStockHistoryBySymbol response" where
  "getStockHistoryBySymbolInline env stock_name fromDate toDate =
     (let checks = historyChecks stock_name fromDate toDate
      in case getValidationErrors env checks of
           Some validationErrors \<Rightarrow> ([Validate checks], Errors validationErrors)
         | None \<Rightarrow>
             ([Validate checks, Alpha stock_name],
              case getStockHistoryAsStream env stock_name of
                None \<Rightarrow> Errors [UnknownError]
              | Some historyStream \<Rightarrow>
                  (case Date_toISOString env toDate of
                     None \<Rightarrow> Errors [UnknownError]
                   | Some toText \<Rightarrow>
                       (case Date_toISOString env fromDate of
                          None \<Rightarrow> Errors [UnknownError]
                        | Some fromText \<Rightarrow>
                            (case runStream (split_T_0 toText) (split_T_0 fromText)
                                    \<lparr>reading = False, ending = False\<rparr> ''{'' historyStream of
                               Some stringResult \<Rightarrow> onPause env stock_name stringResult
                             | None \<Rightarrow>
                                 Errors [NotFoundError ''from'' fromDate,
                                         NotFoundError ''to'' toDate])))))"

section \<open>Gains projection\<close>

record GetProjectedGains =
  name :: string
  lastPrice :: jsnum
  priceAtDate :: jsnum
  purchasedAmount :: jsnum
  purchasedAt :: string
  capitalGains :: jsnum

definition gainsChecks :: "string \<Rightarrow> string \<Rightarrow> string \<Rightarrow> check list" where
  "gainsChecks stock_name amount date =
     [(STRING, ''stock_name'', [stock_name]),
      (POSITIVE_NUMBER, ''purchasedAmount'', [amount]),
      (DATE, ''purchasedAt'', [date]),
      (IS_NOT_WEEKEND, ''purchasedAt'', [date]),
      (NOT_TODAY_OR_AFTER, ''purchasedAt'', [date])]"

text \<open>\<open>errors[0] instanceof NotFoundError && errors.length === 2\<close>.\<close>

definition didNotFindDate :: "BaseError list \<Rightarrow> bool" where
  "didNotFindDate errors =
     ((case errors of [] \<Rightarrow> False | e # _ \<Rightarrow> (case e of NotFoundError f v \<Rightarrow> True | _ \<Rightarrow> False))
      \<and> length errors = 2)"

text \<open>
  The part of \<open>projectGains\<close> after both results are there, when both lookups succeeded.
  \<open>prices[0].closing\<close> throws \<open>TypeError\<close> on an empty array and \<open>toISOString\<close> may throw
  \<open>RangeError\<close>; nothing in \<open>projectGains\<close> catches them.
\<close>

definition assembleGains ::
  "env \<Rightarrow> string \<Rightarrow> string \<Rightarrow> string \<Rightarrow> GetStockBySymbol \<Rightarrow> GetStockHistoryBySymbol \<Rightarrow>
   GetProjectedGains response" where
  "assembleGains env stock_name amount date today onDate =
     (let totalToday = js_mul (GetStockBySymbol.lastPrice today) (NumberOfString env amount)
      in case prices onDate of
           [] \<Rightarrow> Uncaught
         | p # _ \<Rightarrow>
             (let totalOnDate = js_mul (closing p) (NumberOfString env amount)
              in case Date_toISOString env date of
                   None \<Rightarrow> Uncaught
                 | Some isoText \<Rightarrow>
                     ControllerSuccess
                       \<lparr>name = toUpperCase env stock_name,
                        lastPrice = GetStockBySymbol.lastPrice today,
                        priceAtDate = closing p,
                        purchasedAmount = NumberOfString env amount,
                        purchasedAt = isoText,
                        capitalGains = Number_toFixed2 (js_sub totalToday totalOnDate)\<rparr>))"

text \<open>
  The two \<open>if\<close> statements of \<open>projectGains\<close> in the controller with \<open>HistorySearcher\<close>:
  the quote's failure is returned as it is, the history's failure after the rewriting of
  the two-error list.
\<close>

definition combineGains ::
  "env \<Rightarrow> string \<Rightarrow> string \<Rightarrow> string \<Rightarrow> GetStockBySymbol response \<Rightarrow>
   GetStockHistoryBySymbol response \<Rightarrow> GetProjectedGains response" where
  "combineGains env stock_name amount date todaysValue onDateValue =
     (case todaysValue of
        ControllerSuccess today \<Rightarrow>
          (case onDateValue of
             ControllerSuccess onDate \<Rightarrow> assembleGains env stock_name amount date today onDate
           | Errors es \<Rightarrow>
               if didNotFindDate es then Errors [NotFoundError ''purchasedAt'' date]
               else Errors es
           | Uncaught \<Rightarrow> Uncaught)
      | Errors es \<Rightarrow> Errors es
      | Uncaught \<Rightarrow> Uncaught)"

text \<open>
  The same in \<open>src/controllers/ApiController.ts\<close>, which rewrites on the quote's side too.
\<close>

definition combineGainsInline ::
  "env \<Rightarrow> string \<Rightarrow> string \<Rightarrow> string \<Rightarrow> GetStockBySymbol response \<Rightarrow>
   GetStockHistoryBySymbol response \<Rightarrow> GetProjectedGains response" where
  "combineGainsInline env stock_name amount date todaysValue onDateValue =
     (case todaysValue of
        ControllerSuccess today \<Rightarrow>
          (case onDateValue of
             ControllerSuccess onDate \<Rightarrow> assembleGains env stock_name amount date today onDate
           | Errors es \<Rightarrow>
               if didNotFindDate es then Errors [NotFoundError ''purchasedAt'' date]
               else Errors es
           | Uncaught \<Rightarrow> Uncaught)
      | Errors es \<Rightarrow>
          if didNotFindDate es then Errors [NotFoundError ''purchasedAt'' date]
          else Errors es
      | Uncaught \<Rightarrow> Uncaught)"

text \<open>
  \<open>await Promise.all([...])\<close>: both lookups are started, the quote first, and the method
  goes on only when both promises are fulfilled; if one of them never settles, neither
  does \<open>projectGains\<close>.
\<close>

definition awaitBoth ::
  "'a response \<Rightarrow> 'b response \<Rightarrow> ('a response \<Rightarrow> 'b response \<Rightarrow> 'c response) \<Rightarrow> 'c response" where
  "awaitBoth x y k = (if x = Uncaught \<or> y = Uncaught then Uncaught else k x y)"

definition projectGains ::
  "env \<Rightarrow> string \<Rightarrow> string \<Rightarrow> string \<Rightarrow> call list \<times> GetProjectedGains response" where
  "projectGains env stock_name amount date =
     (let checks = gainsChecks stock_name amount date
      in case getValidationErrors env checks of
           Some validationErrors \<Rightarrow> ([Validate checks], Errors validationErrors)
         | None \<Rightarrow>
             (let (calls1, todaysValue) = getStockBySymbol env stock_name;
                  (calls2, onDateValue) = getStockHistoryBySymbol env stock_name date date
              in (Validate checks # calls1 @ calls2,
                  awaitBoth todaysValue onDateValue (combineGains env stock_name amount date))))"

definition projectGainsInline ::
  "env \<Rightarrow> string \<Rightarrow> string \<Rightarrow> string \<Rightarrow> call list \<times> GetProjectedGains response" where
  "projectGainsInline env stock_name amount date =
     (let checks = gainsChecks stock_name amount date
      in case getValidationErrors env checks of
           Some validationErrors \<Rightarrow> ([Validate checks], Errors validationErrors)
         | None \<Rightarrow>
             (let (calls1, todaysValue) = getStockBySymbol env stock_name;
                  (calls2, onDateValue) = getStockHistoryBySymbolInline env stock_name date date
              in (Validate checks # calls1 @ calls2,
                  awaitBoth todaysValue onDateValue
                    (combineGainsInline env stock_name amount date))))"

section \<open>Sample collaborators\<close>

text \<open>
  Collaborators in the manner of the mocks of the test suite, for evaluating the
  controller on concrete requests: a history document of three days, newest first, the
  provider's error document, a quote provider that knows \<open>ibm\<close> at the price 12.02 and
  reports \<open>Non Existent\<close> as not found, and a validator that rejects empty values.
\<close>

definition sampleDocument :: "string list" where
  \<open>sampleDocument =
     [''{'',
      ''"2022-11-22": {'',
      ''"1. open": "147.6",'',
      ''"2. high": "149.35",'',
      ''"3. low": "147.02",'',
      ''"4. close": "149.1"'',
      ''},'',
      ''"2022-11-21": {'',
      ''"1. open": "147.55",'',
      ''"2. high": "147.928",'',
      ''"3. low": "146.45",'',
      ''"4. close": "146.68"'',
      ''},'',
      ''"2022-11-18": {'',
      ''"1. open": "146.56",'',
      ''"2. high": "148.31",'',
      ''"3. low": "145.94",'',
      ''"4. close": "147.64"'',
      ''}'',
      ''}'']\<close>

definition errorDocument :: "string list" where
  \<open>errorDocument = [''{'', ''"Error Message": "Invalid API call."'', ''}'']\<close>

text \<open>A day's record followed by the provider's error line.\<close>

definition brokenDocument :: "string list" where
  \<open>brokenDocument =
     [''{'',
      ''"2022-11-22": {'',
      ''"1. open": "147.6",'',
      ''"2. high": "149.35",'',
      ''"3. low": "147.02",'',
      ''"4. close": "149.1"'',
      ''}'',
      ''"Error Message": "Invalid API call."'']\<close>

definition day22 :: "string \<times> json" where
  "day22 = (''2022-11-22'',
            JObject [(''1. open'', JString ''147.6''), (''2. high'', JString ''149.35''),
                     (''3. low'', JString ''147.02''), (''4. close'', JString ''149.1'')])"

definition day21 :: "string \<times> json" where
  "day21 = (''2022-11-21'',
            JObject [(''1. open'', JString ''147.55''), (''2. high'', JString ''147.928''),
                     (''3. low'', JString ''146.45''), (''4. close'', JString ''146.68'')])"

definition day18 :: "string \<times> json" where
  "day18 = (''2022-11-18'',
            JObject [(''1. open'', JString ''146.56''), (''2. high'', JString ''148.31''),
                     (''3. low'', JString ''145.94''), (''4. close'', JString ''147.64'')])"

text \<open>What \<open>JSON.parse\<close> gives on the texts the sample requests produce.\<close>

definition sampleParses :: "(string \<times> (string \<times> json) list) list" where
  \<open>sampleParses =
     [(''{"2022-11-22": {"1. open": "147.6","2. high": "149.35","3. low": "147.02","4. close": "149.1"}}'',
       [day22]),
      (''{"2022-11-18": {"1. open": "146.56","2. high": "148.31","3. low": "145.94","4. close": "147.64"}}'',
       [day18]),
      (''{"2022-11-22": {"1. open": "147.6","2. high": "149.35","3. low": "147.02","4. close": "149.1"},"2022-11-21": {"1. open": "147.55","2. high": "147.928","3. low": "146.45","4. close": "146.68"},"2022-11-18": {"1. open": "146.56","2. high": "148.31","3. low": "145.94","4. close": "147.64"}}'',
       [day22, day21, day18])]\<close>

text \<open>The binary64 values of the decimals that occur.\<close>

definition sampleDecimals :: "(string \<times> jsnum) list" where
  "sampleDecimals =
     [(''147.6'', Fin 5193213320311603 (- 45)), (''149.35'', Fin 5254785971467059 (- 45)),
      (''147.02'', Fin 5172806384500081 (- 45)), (''149.1'', Fin 5245989878444851 (- 45)),
      (''147.55'', Fin 2595727050853581 (- 44)), (''147.928'', Fin 1301188448589185 (- 43)),
      (''146.45'', Fin 2576375646204723 (- 44)), (''146.68'', Fin 2580421848994939 (- 44)),
      (''146.56'', Fin 2578310786669609 (- 44)), (''148.31'', Fin 2609097112247337 (- 44)),
      (''145.94'', Fin 2567403631322071 (- 44)), (''147.64'', Fin 1298655173798789 (- 43)),
      (''10'', Fin 5 1), (''2.5'', Fin 5 (- 1))]"

definition sampleNumberOfString :: "string \<Rightarrow> jsnum" where
  "sampleNumberOfString s = (case map_of sampleDecimals s of Some n \<Rightarrow> n | None \<Rightarrow> NaN)"

definition sampleNumber :: "json option \<Rightarrow> jsnum" where
  "sampleNumber v = (case v of Some (JString s) \<Rightarrow> sampleNumberOfString s | _ \<Rightarrow> NaN)"

definition sampleValidate :: "check list \<Rightarrow> BaseError list option" where
  "sampleValidate checks =
     (let errors = concat (map (\<lambda>(t, field, values). if [] \<in> set values then [OtherError field] else [])
                            checks)
      in if errors = [] then None else Some errors)"

definition sampleYahoo :: "string \<Rightarrow> string option + YahooQuote" where
  "sampleYahoo stock_name =
     (if stock_name = ''ibm''
      then Inr \<lparr>symbol = ''IBM'', regularMarketPrice = Fin 3383329220062085 (- 48),
                regularMarketTime = 946684800\<rparr>
      else if stock_name = ''Non Existent'' then Inl (Some ''Not Found'')
      else Inl None)"

definition sampleAlpha :: "string \<Rightarrow> string list option" where
  "sampleAlpha stock_name =
     (if stock_name = ''unknown'' then Some errorDocument
      else if stock_name = ''broken'' then Some brokenDocument
      else Some sampleDocument)"

definition sampleDate :: "string \<Rightarrow> string option" where
  "sampleDate s = (if length s = 10 then Some (s @ ''T00:00:00.000Z'') else None)"

definition sampleDateOfMillis :: "int \<Rightarrow> string option" where
  "sampleDateOfMillis ms =
     (if ms = 946684800000 then Some ''2000-01-01T00:00:00.000Z'' else None)"

definition asciiUpper :: "string \<Rightarrow> string" where
  "asciiUpper s =
     map (\<lambda>c. let n = (of_char c :: nat) in if 97 \<le> n \<and> n \<le> 122 then char_of (n - 32) else c) s"

definition sampleEnv :: env where
  "sampleEnv =
     \<lparr>getValidationErrors = sampleValidate,
      yahooGetStockBySymbol = sampleYahoo,
      getStockHistoryAsStream = sampleAlpha,
      Date_toISOString = sampleDate,
      DateOfMillis_toISOString = sampleDateOfMillis,
      JSON_parse = map_of sampleParses,
      Number = sampleNumber,
      NumberOfString = sampleNumberOfString,
      toUpperCase = asciiUpper\<rparr>"


text \<open>The three points of the sample document.\<close>

definition point22 :: HistoricPrices where
  "point22 = \<lparr>opening' = Fin 5193213320311603 (- 45), high = Fin 5254785971467059 (- 45),
            low = Fin 5172806384500081 (- 45), closing = Fin 5245989878444851 (- 45),
            pricedAt = ''2022-11-22T00:00:00.000Z''\<rparr>"

definition point21 :: HistoricPrices where
  "point21 = \<lparr>opening' = Fin 2595727050853581 (- 44), high = Fin 1301188448589185 (- 43),
            low = Fin 2576375646204723 (- 44), closing = Fin 2580421848994939 (- 44),
            pricedAt = ''2022-11-21T00:00:00.000Z''\<rparr>"

definition point18 :: HistoricPrices where
  "point18 = \<lparr>opening' = Fin 2578310786669609 (- 44), high = Fin 2609097112247337 (- 44),
            low = Fin 2567403631322071 (- 44), closing = Fin 1298655173798789 (- 43),
            pricedAt = ''2022-11-18T00:00:00.000Z''\<rparr>"

section \<open>Notions used in the statements\<close>

text \<open>The errors and the result a response carries, as lists.\<close>

definition errorsOf :: "'a response \<Rightarrow> BaseError list" where
  "errorsOf r = (case r of Errors es \<Rightarrow> es | _ \<Rightarrow> [])"

definition resultsOf :: "'a response \<Rightarrow> 'a list" where
  "resultsOf r = (case r of ControllerSuccess x \<Rightarrow> [x] | _ \<Rightarrow> [])"

definition isValidate :: "call \<Rightarrow> bool" where
  "isValidate c = (case c of Validate checks \<Rightarrow> True | _ \<Rightarrow> False)"

text \<open>A text appears in some line of a stream.\<close>

definition appearsIn :: "string \<Rightarrow> string list \<Rightarrow> bool" where
  "appearsIn token historyStream = list_ex (\<lambda>line. includes_str line token) historyStream"

section \<open>Quote lookup and comparison: properties\<close>

text \<open>The quote lookup catches every exception and builds non-empty error lists itself.\<close>

lemma getStockBySymbol_caught: "snd (getStockBySymbol env s) \<noteq> Uncaught"
  by (simp add: getStockBySymbol_def Let_def split: option.split sum.split)

lemma getStockBySymbol_nonempty:
  "getValidationErrors env [(STRING, ''stock_name'', [s])] \<noteq> Some [] \<Longrightarrow>
   snd (getStockBySymbol env s) \<noteq> Errors []"
  by (auto simp: getStockBySymbol_def Let_def split: option.split sum.split)

text \<open>
  The loop appends to the calls, to \<open>successArray\<close> and to \<open>errorArray\<close> what each lookup
  gives, in the order of the symbols.
\<close>

lemma compareLoop_eq:
  "compareLoop env xs (calls, successArray, errorArray) =
     (calls @ concat (map (\<lambda>s. fst (getStockBySymbol env s)) xs),
      successArray @ concat (map (\<lambda>s. resultsOf (snd (getStockBySymbol env s))) xs),
      errorArray @ concat (map (\<lambda>s. errorsOf (snd (getStockBySymbol env s))) xs))"
proof (induction xs arbitrary: calls successArray errorArray)
  case Nil
  then show ?case by simp
next
  case (Cons x xs)
  obtain cs r where g: "getStockBySymbol env x = (cs, r)"
    by (cases "getStockBySymbol env x")
  show ?case
  proof (cases r)
    case (ControllerSuccess q)
    with g Cons show ?thesis by (simp add: resultsOf_def errorsOf_def)
  next
    case (Errors es)
    with g Cons show ?thesis by (simp add: resultsOf_def errorsOf_def)
  next
    case Uncaught
    with g Cons show ?thesis by (simp add: resultsOf_def errorsOf_def)
  qed
qed

lemma compareStockBySymbols_eq:
  "compareStockBySymbols env stock_name stocks =
     (concat (map (\<lambda>s. fst (getStockBySymbol env s)) (stock_name # stocks)),
      if concat (map (\<lambda>s. errorsOf (snd (getStockBySymbol env s))) (stock_name # stocks)) \<noteq> []
      then Errors (concat (map (\<lambda>s. errorsOf (snd (getStockBySymbol env s))) (stock_name # stocks)))
      else ControllerSuccess
             (concat (map (\<lambda>s. resultsOf (snd (getStockBySymbol env s))) (stock_name # stocks))))"
  unfolding compareStockBySymbols_def compareLoop_eq by simp

lemma all_succeed_iff:
  assumes "\<forall>s\<in>set xs. getValidationErrors env [(STRING, ''stock_name'', [s])] \<noteq> Some []"
  shows "(concat (map (\<lambda>s. errorsOf (snd (getStockBySymbol env s))) xs) = [] \<and>
          concat (map (\<lambda>s. resultsOf (snd (getStockBySymbol env s))) xs) = qs)
         \<longleftrightarrow> map (\<lambda>s. snd (getStockBySymbol env s)) xs = map ControllerSuccess qs"
  using assms
proof (induction xs arbitrary: qs)
  case Nil
  then show ?case by auto
next
  case (Cons x xs)
  have ne: "snd (getStockBySymbol env x) \<noteq> Errors []"
    using Cons.prems by (simp add: getStockBySymbol_nonempty)
  have IH: "\<And>qs. (concat (map (\<lambda>s. errorsOf (snd (getStockBySymbol env s))) xs) = [] \<and>
          concat (map (\<lambda>s. resultsOf (snd (getStockBySymbol env s))) xs) = qs)
         \<longleftrightarrow> map (\<lambda>s. snd (getStockBySymbol env s)) xs = map ControllerSuccess qs"
    using Cons.IH Cons.prems by simp
  show ?case
  proof (cases "snd (getStockBySymbol env x)")
    case (ControllerSuccess q)
    then show ?thesis using IH by (cases qs) (auto simp: errorsOf_def resultsOf_def)
  next
    case (Errors es)
    with ne have "es \<noteq> []" by auto
    with Errors show ?thesis by (cases qs) (auto simp: errorsOf_def resultsOf_def)
  next
    case Uncaught
    then show ?thesis using getStockBySymbol_caught[of env x] by simp
  qed
qed

text \<open>
  Claim C5. The comparison looks the symbols up one by one in the order given: its calls
  are the calls of the lookups in that order, with one validation per symbol. If some
  lookup fails, the result is the concatenation, in that order, of the errors of every
  failing lookup; and the result is a success with the quotes \<open>qs\<close> exactly when every
  lookup succeeds and \<open>qs\<close> are their quotes in that order. The validator is taken to
  return \<open>undefined\<close> or a non-empty list, as its contract says.
\<close>

theorem compareStockBySymbols_concatenates:
  assumes "\<forall>s\<in>set (stock_name # stocks).
             getValidationErrors env [(STRING, ''stock_name'', [s])] \<noteq> Some []"
  shows "fst (compareStockBySymbols env stock_name stocks) =
           concat (map (\<lambda>s. fst (getStockBySymbol env s)) (stock_name # stocks))
         \<and> filter isValidate (fst (compareStockBySymbols env stock_name stocks)) =
           map (\<lambda>s. Validate [(STRING, ''stock_name'', [s])]) (stock_name # stocks)
         \<and> ((\<exists>s\<in>set (stock_name # stocks). \<exists>es. snd (getStockBySymbol env s) = Errors es) \<longrightarrow>
            snd (compareStockBySymbols env stock_name stocks) =
              Errors (concat (map (\<lambda>s. errorsOf (snd (getStockBySymbol env s)))
                                (stock_name # stocks))))
         \<and> (snd (compareStockBySymbols env stock_name stocks) = ControllerSuccess qs \<longleftrightarrow>
            map (\<lambda>s. snd (getStockBySymbol env s)) (stock_name # stocks) =
              map ControllerSuccess qs)"
proof (intro conjI impI)
  let ?xs = "stock_name # stocks"
  let ?E = "concat (map (\<lambda>s. errorsOf (snd (getStockBySymbol env s))) ?xs)"
  let ?R = "concat (map (\<lambda>s. resultsOf (snd (getStockBySymbol env s))) ?xs)"
  show "fst (compareStockBySymbols env stock_name stocks) =
          concat (map (\<lambda>s. fst (getStockBySymbol env s)) ?xs)"
    by (simp add: compareStockBySymbols_eq)
  have v: "filter isValidate (fst (getStockBySymbol env s)) = [Validate [(STRING, ''stock_name'', [s])]]" for s
    by (simp add: getStockBySymbol_def Let_def isValidate_def split: option.split)
  have "filter isValidate (concat (map (\<lambda>s. fst (getStockBySymbol env s)) xs)) =
          map (\<lambda>s. Validate [(STRING, ''stock_name'', [s])]) xs" for xs
    by (induction xs) (simp_all add: v)
  then show "filter isValidate (fst (compareStockBySymbols env stock_name stocks)) =
          map (\<lambda>s. Validate [(STRING, ''stock_name'', [s])]) ?xs"
    by (simp only: compareStockBySymbols_eq fst_conv)
  have iff: "(?E = [] \<and> ?R = qs) \<longleftrightarrow>
             map (\<lambda>s. snd (getStockBySymbol env s)) ?xs = map ControllerSuccess qs" for qs
    using all_succeed_iff[OF assms] .
  show "snd (compareStockBySymbols env stock_name stocks) = Errors ?E"
    if "\<exists>s\<in>set ?xs. \<exists>es. snd (getStockBySymbol env s) = Errors es"
  proof -
    from that obtain s es where s: "s \<in> set ?xs" "snd (getStockBySymbol env s) = Errors es"
      by blast
    have "?E \<noteq> []"
    proof
      assume "?E = []"
      then have "map (\<lambda>s. snd (getStockBySymbol env s)) ?xs = map ControllerSuccess ?R"
        using iff[of ?R] by simp
      then have "\<forall>x\<in>set ?xs. \<exists>q. snd (getStockBySymbol env x) = ControllerSuccess q"
        by (metis (no_types, lifting) imageE image_eqI list.set_map)
      with s show False by auto
    qed
    then show ?thesis by (simp add: compareStockBySymbols_eq)
  qed
  show "snd (compareStockBySymbols env stock_name stocks) = ControllerSuccess qs \<longleftrightarrow>
        map (\<lambda>s. snd (getStockBySymbol env s)) ?xs = map ControllerSuccess qs"
    using iff[of qs] by (auto simp: compareStockBySymbols_eq)
qed

text \<open>The sample quote provider on its two symbols.\<close>

lemma sample_quote_ibm:
  "getStockBySymbol sampleEnv ''ibm'' =
     ([Validate [(STRING, ''stock_name'', [''ibm''])], Yahoo ''ibm''],
      ControllerSuccess
        \<lparr>GetStockBySymbol.name = ''IBM'', lastPrice = Fin 3383329220062085 (- 48),
         pricedAt = ''2000-01-01T00:00:00.000Z''\<rparr>)"
  by (simp add: getStockBySymbol_def sampleEnv_def sampleValidate_def sampleYahoo_def
      sampleDateOfMillis_def)

lemma sample_quote_missing:
  "getStockBySymbol sampleEnv ''Non Existent'' =
     ([Validate [(STRING, ''stock_name'', [''Non Existent''])], Yahoo ''Non Existent''],
      Errors [NotFoundError ''stock_name'' ''Non Existent''])"
  by (simp add: getStockBySymbol_def sampleEnv_def sampleValidate_def sampleYahoo_def)

lemma sample_quote_valid:
  "getValidationErrors sampleEnv [(STRING, ''stock_name'', [s])] \<noteq> Some []"
  by (simp add: sampleEnv_def sampleValidate_def)

text \<open>
  The request of the test suite with an unknown symbol at both ends: both errors are
  reported, and \<open>ibm\<close> in the middle is still looked up.
\<close>

theorem compareStockBySymbols_concatenates_witness:
  "compareStockBySymbols sampleEnv ''Non Existent'' [''ibm'', ''Non Existent''] =
     ([Validate [(STRING, ''stock_name'', [''Non Existent''])], Yahoo ''Non Existent'',
       Validate [(STRING, ''stock_name'', [''ibm''])], Yahoo ''ibm'',
       Validate [(STRING, ''stock_name'', [''Non Existent''])], Yahoo ''Non Existent''],
      Errors [NotFoundError ''stock_name'' ''Non Existent'',
              NotFoundError ''stock_name'' ''Non Existent''])"
proof -
  have v: "\<forall>s\<in>set [''Non Existent'', ''ibm'', ''Non Existent''].
             getValidationErrors sampleEnv [(STRING, ''stock_name'', [s])] \<noteq> Some []"
    by (simp add: sample_quote_valid)
  have f: "\<exists>s\<in>set [''Non Existent'', ''ibm'', ''Non Existent''].
             \<exists>es. snd (getStockBySymbol sampleEnv s) = Errors es"
    by (simp add: sample_quote_missing)
  from compareStockBySymbols_concatenates [OF v] f
  have "fst (compareStockBySymbols sampleEnv ''Non Existent'' [''ibm'', ''Non Existent'']) =
          concat (map (\<lambda>s. fst (getStockBySymbol sampleEnv s))
                    [''Non Existent'', ''ibm'', ''Non Existent''])"
    and "snd (compareStockBySymbols sampleEnv ''Non Existent'' [''ibm'', ''Non Existent'']) =
          Errors (concat (map (\<lambda>s. errorsOf (snd (getStockBySymbol sampleEnv s)))
                            [''Non Existent'', ''ibm'', ''Non Existent'']))"
    by blast+
  then show ?thesis
    by (simp add: prod_eq_iff sample_quote_ibm sample_quote_missing errorsOf_def)
qed

section \<open>Scanning with \<open>HistorySearcher\<close>: properties\<close>

lemma reading_update_same: "reading st \<Longrightarrow> st\<lparr>reading := True\<rparr> = st"
  by (cases st) simp

lemma ending_update_same: "ending st \<Longrightarrow> st\<lparr>ending := True\<rparr> = st"
  by (cases st) simp

text \<open>A line that is neither the error line nor the start of the interval is skipped.\<close>

lemma onData_idle:
  "\<not> reading st \<Longrightarrow> \<not> didntFoundStockInDatabase l \<Longrightarrow>
   \<not> foundStartOfWantedInterval l fd \<Longrightarrow> onData fd ld (st, r, p) l = (st, r, p)"
  by (simp add: onData_def shouldIgnoreForPerformance_def Let_def)

lemma foldl_onData_idle:
  "\<not> reading st \<Longrightarrow>
   \<forall>l\<in>set ls. \<not> didntFoundStockInDatabase l \<and> \<not> foundStartOfWantedInterval l fd \<Longrightarrow>
   foldl (onData fd ld) (st, r, p) ls = (st, r, p)"
  by (induction ls) (simp_all add: onData_idle)

text \<open>A settled promise stays as it is.\<close>

lemma onData_settled: "snd (snd (onData fd ld (st, r, Some x) l)) = Some x"
  by (simp add: onData_def Let_def resolve_def reject_def)

lemma foldl_onData_settled: "snd (snd (foldl (onData fd ld) (st, r, Some x) ls)) = Some x"
proof (induction ls arbitrary: st r)
  case Nil
  then show ?case by simp
next
  case (Cons l ls)
  obtain st' r' p' where s: "onData fd ld (st, r, Some x) l = (st', r', p')"
    by (cases "onData fd ld (st, r, Some x) l") auto
  with onData_settled[of fd ld st r x l] have "p' = Some x" by simp
  with s Cons.IH[of st' r'] show ?case by simp
qed

text \<open>While reading, before the end of the interval is seen, lines are gathered.\<close>

lemma onData_reading:
  "reading st \<Longrightarrow> \<not> ending st \<Longrightarrow> \<not> didntFoundStockInDatabase l \<Longrightarrow>
   \<not> foundEndOfWantedInterval l ld \<Longrightarrow> onData fd ld (st, r, p) l = (st, r @ l, p)"
  by (simp add: onData_def shouldIgnoreForPerformance_def Let_def startReading_def
      reading_update_same isScanningThrougSearchingInterval_def addLineToResult_def
      finishedReadingLastObject_def)

lemma foldl_onData_reading:
  "reading st \<Longrightarrow> \<not> ending st \<Longrightarrow>
   \<forall>l\<in>set ls. \<not> didntFoundStockInDatabase l \<and> \<not> foundEndOfWantedInterval l ld \<Longrightarrow>
   foldl (onData fd ld) (st, r, p) ls = (st, r @ concat ls, p)"
  by (induction ls arbitrary: r) (simp_all add: onData_reading)

lemma onData_start:
  "reading st \<or> foundStartOfWantedInterval l fd \<Longrightarrow> \<not> ending st \<Longrightarrow>
   \<not> didntFoundStockInDatabase l \<Longrightarrow> \<not> foundEndOfWantedInterval l ld \<Longrightarrow>
   onData fd ld (st, r, p) l = (st\<lparr>reading := True\<rparr>, r @ l, p)"
  by (auto simp: onData_def shouldIgnoreForPerformance_def Let_def startReading_def
      reading_update_same isScanningThrougSearchingInterval_def addLineToResult_def
      finishedReadingLastObject_def)

text \<open>After the end of the interval is seen, lines are gathered up to a closing brace.\<close>

lemma onData_ending:
  "reading st \<Longrightarrow> ending st \<Longrightarrow> \<not> didntFoundStockInDatabase l \<Longrightarrow>
   \<not> includes_str l ''}'' \<Longrightarrow> onData fd ld (st, r, p) l = (st, r @ l, p)"
  by (simp add: onData_def shouldIgnoreForPerformance_def Let_def startReading_def
      startLookingForLastObject_def reading_update_same ending_update_same
      isScanningThrougSearchingInterval_def addLineToResult_def finishedReadingLastObject_def)

lemma foldl_onData_ending:
  "reading st \<Longrightarrow> ending st \<Longrightarrow>
   \<forall>l\<in>set ls. \<not> didntFoundStockInDatabase l \<and> \<not> includes_str l ''}'' \<Longrightarrow>
   foldl (onData fd ld) (st, r, p) ls = (st, r @ concat ls, p)"
  by (induction ls arbitrary: r) (simp_all add: onData_ending)

lemma onData_end:
  "reading st \<or> foundStartOfWantedInterval l fd \<Longrightarrow> foundEndOfWantedInterval l ld \<Longrightarrow>
   \<not> didntFoundStockInDatabase l \<Longrightarrow> \<not> includes_str l ''}'' \<Longrightarrow>
   onData fd ld (st, r, p) l = (st\<lparr>reading := True, ending := True\<rparr>, r @ l, p)"
  by (auto simp: onData_def shouldIgnoreForPerformance_def Let_def startReading_def
      startLookingForLastObject_def reading_update_same
      isScanningThrougSearchingInterval_def addLineToResult_def finishedReadingLastObject_def)

lemma onData_close:
  "reading st \<or> foundStartOfWantedInterval l fd \<Longrightarrow>
   ending st \<or> foundEndOfWantedInterval l ld \<Longrightarrow>
   \<not> didntFoundStockInDatabase l \<Longrightarrow> includes_str l ''}'' \<Longrightarrow>
   snd (snd (onData fd ld (st, r, p) l)) =
     resolve (removeLastCommaIfNecessary (r @ l) @ ''}'') p"
  by (auto simp: onData_def shouldIgnoreForPerformance_def Let_def startReading_def
      startLookingForLastObject_def
      isScanningThrougSearchingInterval_def addLineToResult_def finishedReadingLastObject_def)

text \<open>The scan gives what settled the promise, or \<open>'fromto'\<close> if nothing did.\<close>

lemma scan_settled:
  "snd (snd (foldl (onData fd ld) (\<lparr>reading = False, ending = False\<rparr>, ''{'', None) ls)) = Some x
   \<Longrightarrow> scanStreamForTimeInterval ls fd ld = x"
  by (cases "foldl (onData fd ld) (\<lparr>reading = False, ending = False\<rparr>, ''{'', None) ls")
    (simp add: scanStreamForTimeInterval_def reject_def)

lemma scan_unsettled:
  "snd (snd (foldl (onData fd ld) (\<lparr>reading = False, ending = False\<rparr>, ''{'', None) ls)) = None
   \<Longrightarrow> scanStreamForTimeInterval ls fd ld = Inl (Reason ''fromto'')"
  by (cases "foldl (onData fd ld) (\<lparr>reading = False, ending = False\<rparr>, ''{'', None) ls")
    (simp add: scanStreamForTimeInterval_def reject_def)

text \<open>
  The window. The stream is \<open>pre @ w1 @ w2 @ c # post\<close>: no line of \<open>pre\<close> starts the
  interval, the window \<open>w1 @ w2 @ [c]\<close> begins with the line that does, \<open>w1\<close> are its lines
  before the one that starts the last day, \<open>w2\<close> those from there on that hold no closing
  brace, and \<open>c\<close> is the first that holds one. No line up to \<open>c\<close> is the error line. Then
  the scan resolves with the window between braces, one trailing comma removed if there
  is one.
\<close>

lemma scanStreamForTimeInterval_window:
  assumes pre: "\<forall>l\<in>set pre. \<not> didntFoundStockInDatabase l \<and> \<not> foundStartOfWantedInterval l fd"
    and noerr: "\<forall>l\<in>set (w1 @ w2 @ [c]). \<not> didntFoundStockInDatabase l"
    and start: "foundStartOfWantedInterval (hd (w1 @ w2 @ [c])) fd"
    and w1: "\<forall>l\<in>set w1. \<not> foundEndOfWantedInterval l ld"
    and last: "foundEndOfWantedInterval (hd (w2 @ [c])) ld"
    and w2: "\<forall>l\<in>set w2. \<not> includes_str l ''}''"
    and c: "includes_str c ''}''"
  shows "scanStreamForTimeInterval (pre @ w1 @ w2 @ c # post) fd ld =
           Inr (removeLastCommaIfNecessary (''{'' @ concat (w1 @ w2 @ [c])) @ ''}'')"
proof -
  let ?f = "onData fd ld"
  let ?st0 = "\<lparr>reading = False, ending = False\<rparr>"
  have s0: "foldl ?f (?st0, ''{'', None) pre = (?st0, ''{'', None)"
    using pre by (simp add: foldl_onData_idle)
  obtain st1 where s1: "foldl ?f (?st0, ''{'', None) w1 = (st1, ''{'' @ concat w1, None)"
    and r1: "reading st1 \<or> (w1 = [] \<and> foundStartOfWantedInterval (hd (w2 @ [c])) fd)"
    and e1: "\<not> ending st1"
  proof (cases w1)
    case Nil
    with start that[of ?st0] show ?thesis by simp
  next
    case (Cons k rest)
    with start noerr w1
    have k: "onData fd ld (?st0, ''{'', None) k = (?st0\<lparr>reading := True\<rparr>, ''{'' @ k, None)"
      by (intro onData_start) auto
    have "foldl ?f (?st0\<lparr>reading := True\<rparr>, ''{'' @ k, None) rest =
            (?st0\<lparr>reading := True\<rparr>, (''{'' @ k) @ concat rest, None)"
      using noerr w1 Cons by (intro foldl_onData_reading) auto
    with k Cons that[of "?st0\<lparr>reading := True\<rparr>"] show ?thesis by simp
  qed
  obtain st2 where s2: "foldl ?f (st1, ''{'' @ concat w1, None) w2 =
        (st2, ''{'' @ concat w1 @ concat w2, None)"
    and r2: "reading st2 \<or> foundStartOfWantedInterval c fd"
    and e2: "ending st2 \<or> foundEndOfWantedInterval c ld"
  proof (cases w2)
    case Nil
    with r1 last that[of st1] show ?thesis by auto
  next
    case (Cons e rest)
    with r1 last noerr w2
    have e: "onData fd ld (st1, ''{'' @ concat w1, None) e =
               (st1\<lparr>reading := True, ending := True\<rparr>, (''{'' @ concat w1) @ e, None)"
      by (intro onData_end) auto
    have "foldl ?f (st1\<lparr>reading := True, ending := True\<rparr>, (''{'' @ concat w1) @ e, None) rest =
            (st1\<lparr>reading := True, ending := True\<rparr>, ((''{'' @ concat w1) @ e) @ concat rest, None)"
      using noerr w2 Cons by (intro foldl_onData_ending) auto
    with e Cons that[of "st1\<lparr>reading := True, ending := True\<rparr>"] show ?thesis by simp
  qed
  let ?text = "removeLastCommaIfNecessary (''{'' @ concat (w1 @ w2 @ [c])) @ ''}''"
  obtain st3 r3 where s3: "onData fd ld (st2, ''{'' @ concat w1 @ concat w2, None) c =
        (st3, r3, Some (Inr ?text))"
  proof -
    have "snd (snd (onData fd ld (st2, ''{'' @ concat w1 @ concat w2, None) c)) =
            resolve (removeLastCommaIfNecessary ((''{'' @ concat w1 @ concat w2) @ c) @ ''}'') None"
      using r2 e2 noerr c by (intro onData_close) auto
    then show ?thesis
      using that by (cases "onData fd ld (st2, ''{'' @ concat w1 @ concat w2, None) c")
        (simp add: resolve_def)
  qed
  have "foldl ?f (?st0, ''{'', None) (pre @ w1 @ w2 @ c # post) =
          foldl ?f (st3, r3, Some (Inr ?text)) post"
    using s0 s1 s2 s3 by simp
  moreover have "snd (snd (foldl ?f (st3, r3, Some (Inr ?text)) post)) = Some (Inr ?text)"
    by (rule foldl_onData_settled)
  ultimately have "snd (snd (foldl ?f (?st0, ''{'', None) (pre @ w1 @ w2 @ c # post))) =
        Some (Inr ?text)"
    by simp
  then show ?thesis by (rule scan_settled)
qed

text \<open>
  The error line. If the lines before it do not settle the promise, the scan rejects with
  \<open>'stock'\<close>, whether or not lines have been gathered by then.
\<close>

lemma onData_error_line:
  "didntFoundStockInDatabase l \<Longrightarrow>
   snd (snd (onData fd ld (st, r, None) l)) = Some (Inl (Reason ''stock''))"
  by (simp add: onData_def Let_def reject_def resolve_def)

lemma scanStreamForTimeInterval_error_line:
  assumes "snd (snd (foldl (onData fd ld) (\<lparr>reading = False, ending = False\<rparr>, ''{'', None) pre))
             = None"
    and "didntFoundStockInDatabase l"
  shows "scanStreamForTimeInterval (pre @ l # post) fd ld = Inl (Reason ''stock'')"
proof -
  let ?f = "onData fd ld"
  let ?s0 = "(\<lparr>reading = False, ending = False\<rparr>, ''{'', None)"
  obtain st r where a: "foldl ?f ?s0 pre = (st, r, None)"
    using assms(1) by (cases "foldl ?f ?s0 pre") auto
  obtain st' r' where b: "onData fd ld (st, r, None) l = (st', r', Some (Inl (Reason ''stock'')))"
    using onData_error_line[OF assms(2), of fd ld st r]
    by (cases "onData fd ld (st, r, None) l") auto
  have "snd (snd (foldl ?f ?s0 (pre @ l # post))) = Some (Inl (Reason ''stock''))"
    using a b foldl_onData_settled[of fd ld st' r' "Inl (Reason ''stock'')" post] by simp
  then show ?thesis by (rule scan_settled)
qed

text \<open>
  Nothing of the interval in the stream: if no line starts the interval and none is the
  error line, the scan rejects with \<open>'fromto'\<close>.
\<close>

lemma scanStreamForTimeInterval_nothing:
  assumes "\<forall>l\<in>set ls. \<not> didntFoundStockInDatabase l \<and> \<not> foundStartOfWantedInterval l fd"
  shows "scanStreamForTimeInterval ls fd ld = Inl (Reason ''fromto'')"
  using assms by (intro scan_unsettled) (simp add: foldl_onData_idle)

section \<open>Scanning in the callbacks of the controller: properties\<close>

lemma onDataInline_idle:
  "\<not> reading st \<Longrightarrow> \<not> includes_str l ''Error Message'' \<Longrightarrow>
   \<not> (includes_str l fd \<and> includes_str l ''{'') \<Longrightarrow>
   onDataInline fd ld st r l = Flowing st r"
  by (auto simp: onDataInline_def Let_def)

lemma runStream_idle:
  "\<not> reading st \<Longrightarrow>
   \<forall>l\<in>set pre. \<not> includes_str l ''Error Message'' \<and> \<not> (includes_str l fd \<and> includes_str l ''{'') \<Longrightarrow>
   runStream fd ld st r (pre @ rest) = runStream fd ld st r rest"
  by (induction pre) (simp_all add: onDataInline_idle)

lemma onDataInline_reading:
  "reading st \<Longrightarrow> \<not> ending st \<Longrightarrow> \<not> includes_str l ''Error Message'' \<Longrightarrow>
   \<not> (includes_str l ld \<and> includes_str l ''{'') \<Longrightarrow>
   onDataInline fd ld st r l = Flowing st (r @ l)"
  by (auto simp: onDataInline_def Let_def reading_update_same)

lemma runStream_reading:
  "reading st \<Longrightarrow> \<not> ending st \<Longrightarrow>
   \<forall>l\<in>set ls. \<not> includes_str l ''Error Message'' \<and> \<not> (includes_str l ld \<and> includes_str l ''{'') \<Longrightarrow>
   runStream fd ld st r (ls @ rest) = runStream fd ld st (r @ concat ls) rest"
  by (induction ls arbitrary: r) (simp_all add: onDataInline_reading)

lemma onDataInline_start:
  "reading st \<or> (includes_str l fd \<and> includes_str l ''{'') \<Longrightarrow> \<not> ending st \<Longrightarrow>
   \<not> includes_str l ''Error Message'' \<Longrightarrow> \<not> (includes_str l ld \<and> includes_str l ''{'') \<Longrightarrow>
   onDataInline fd ld st r l = Flowing (st\<lparr>reading := True\<rparr>) (r @ l)"
  by (auto simp: onDataInline_def Let_def reading_update_same)

lemma onDataInline_ending:
  "reading st \<Longrightarrow> ending st \<Longrightarrow> \<not> includes_str l ''Error Message'' \<Longrightarrow>
   \<not> includes_str l ''},'' \<Longrightarrow> onDataInline fd ld st r l = Flowing st (r @ l)"
  by (auto simp: onDataInline_def Let_def reading_update_same ending_update_same)

lemma runStream_ending:
  "reading st \<Longrightarrow> ending st \<Longrightarrow>
   \<forall>l\<in>set ls. \<not> includes_str l ''Error Message'' \<and> \<not> includes_str l ''},'' \<Longrightarrow>
   runStream fd ld st r (ls @ rest) = runStream fd ld st (r @ concat ls) rest"
  by (induction ls arbitrary: r) (simp_all add: onDataInline_ending)

lemma onDataInline_end:
  "reading st \<or> (includes_str l fd \<and> includes_str l ''{'') \<Longrightarrow>
   includes_str l ld \<and> includes_str l ''{'' \<Longrightarrow>
   \<not> includes_str l ''Error Message'' \<Longrightarrow> \<not> includes_str l ''},'' \<Longrightarrow>
   onDataInline fd ld st r l = Flowing (st\<lparr>reading := True, ending := True\<rparr>) (r @ l)"
  by (auto simp: onDataInline_def Let_def reading_update_same)

lemma onDataInline_close:
  "reading st \<or> (includes_str l fd \<and> includes_str l ''{'') \<Longrightarrow>
   ending st \<or> (includes_str l ld \<and> includes_str l ''{'') \<Longrightarrow>
   \<not> includes_str l ''Error Message'' \<Longrightarrow> includes_str l ''},'' \<Longrightarrow>
   onDataInline fd ld st r l = Paused (slice_0_minus1 (r @ l))"
  by (auto simp: onDataInline_def Let_def)

text \<open>
  The window, as for \<open>HistorySearcher\<close>, but the line that closes it must hold a closing
  brace followed by a comma, and the last character gathered is dropped whatever it is.
\<close>

lemma runStream_window:
  assumes pre: "\<forall>l\<in>set pre. \<not> includes_str l ''Error Message'' \<and>
                  \<not> (includes_str l fd \<and> includes_str l ''{'')"
    and noerr: "\<forall>l\<in>set (w1 @ w2 @ [c]). \<not> includes_str l ''Error Message''"
    and start: "includes_str (hd (w1 @ w2 @ [c])) fd \<and> includes_str (hd (w1 @ w2 @ [c])) ''{''"
    and w1: "\<forall>l\<in>set w1. \<not> (includes_str l ld \<and> includes_str l ''{'')"
    and last: "includes_str (hd (w2 @ [c])) ld \<and> includes_str (hd (w2 @ [c])) ''{''"
    and w2: "\<forall>l\<in>set w2. \<not> includes_str l ''},''"
    and c: "includes_str c ''},''"
  shows "runStream fd ld \<lparr>reading = False, ending = False\<rparr> ''{'' (pre @ w1 @ w2 @ c # post) =
           Some (slice_0_minus1 (''{'' @ concat (w1 @ w2 @ [c])))"
proof -
  let ?st0 = "\<lparr>reading = False, ending = False\<rparr>"
  have s0: "runStream fd ld ?st0 ''{'' (pre @ w1 @ w2 @ c # post) =
            runStream fd ld ?st0 ''{'' (w1 @ w2 @ c # post)"
    using pre by (intro runStream_idle) auto
  obtain st1 where s1: "runStream fd ld ?st0 ''{'' (w1 @ w2 @ c # post) =
        runStream fd ld st1 (''{'' @ concat w1) (w2 @ c # post)"
    and r1: "reading st1 \<or> (w1 = [] \<and> includes_str (hd (w2 @ [c])) fd \<and> includes_str (hd (w2 @ [c])) ''{'')"
    and e1: "\<not> ending st1"
  proof (cases w1)
    case Nil
    with start that[of ?st0] show ?thesis by simp
  next
    case (Cons k rest)
    with start noerr w1
    have k: "onDataInline fd ld ?st0 ''{'' k = Flowing (?st0\<lparr>reading := True\<rparr>) (''{'' @ k)"
      by (intro onDataInline_start) auto
    have "runStream fd ld (?st0\<lparr>reading := True\<rparr>) (''{'' @ k) (rest @ (w2 @ c # post)) =
          runStream fd ld (?st0\<lparr>reading := True\<rparr>) ((''{'' @ k) @ concat rest) (w2 @ c # post)"
      using noerr w1 Cons by (intro runStream_reading) auto
    with k Cons that[of "?st0\<lparr>reading := True\<rparr>"] show ?thesis by simp
  qed
  obtain st2 where s2: "runStream fd ld st1 (''{'' @ concat w1) (w2 @ c # post) =
        runStream fd ld st2 (''{'' @ concat w1 @ concat w2) (c # post)"
    and r2: "reading st2 \<or> (includes_str c fd \<and> includes_str c ''{'')"
    and e2: "ending st2 \<or> (includes_str c ld \<and> includes_str c ''{'')"
  proof (cases w2)
    case Nil
    with r1 last that[of st1] show ?thesis by auto
  next
    case (Cons e rest)
    with r1 last noerr w2
    have e: "onDataInline fd ld st1 (''{'' @ concat w1) e =
               Flowing (st1\<lparr>reading := True, ending := True\<rparr>) ((''{'' @ concat w1) @ e)"
      by (intro onDataInline_end) auto
    have "runStream fd ld (st1\<lparr>reading := True, ending := True\<rparr>) ((''{'' @ concat w1) @ e)
            (rest @ (c # post)) =
          runStream fd ld (st1\<lparr>reading := True, ending := True\<rparr>)
            (((''{'' @ concat w1) @ e) @ concat rest) (c # post)"
      using noerr w2 Cons by (intro runStream_ending) auto
    with e Cons that[of "st1\<lparr>reading := True, ending := True\<rparr>"] show ?thesis by simp
  qed
  have "onDataInline fd ld st2 (''{'' @ concat w1 @ concat w2) c =
          Paused (slice_0_minus1 ((''{'' @ concat w1 @ concat w2) @ c))"
    using r2 e2 noerr c by (intro onDataInline_close) auto
  then have "runStream fd ld st2 (''{'' @ concat w1 @ concat w2) (c # post) =
          Some (slice_0_minus1 (''{'' @ concat (w1 @ w2 @ [c])))"
    by simp
  with s0 s1 s2 show ?thesis by simp
qed

text \<open>
  Without a line that holds a closing brace followed by a comma, and without the error
  line, the stream is never paused: it ends, whatever has been gathered.
\<close>

lemma onDataInline_flows:
  "\<not> includes_str l ''Error Message'' \<Longrightarrow> \<not> includes_str l ''},'' \<Longrightarrow>
   \<exists>st' r'. onDataInline fd ld st r l = Flowing st' r'"
  by (auto simp: onDataInline_def Let_def)

lemma runStream_never_paused:
  "\<forall>l\<in>set ls. \<not> includes_str l ''Error Message'' \<and> \<not> includes_str l ''},'' \<Longrightarrow>
   runStream fd ld st r ls = None"
proof (induction ls arbitrary: st r)
  case Nil
  then show ?case by simp
next
  case (Cons l ls)
  then obtain st' r' where "onDataInline fd ld st r l = Flowing st' r'"
    using onDataInline_flows[of l fd ld st r] by auto
  with Cons show ?case by simp
qed

text \<open>The error line before anything is gathered pauses the stream on the bare brace.\<close>

lemma runStream_error_line_first:
  assumes "\<forall>l\<in>set pre. \<not> includes_str l ''Error Message'' \<and>
             \<not> (includes_str l fd \<and> includes_str l ''{'')"
    and "includes_str l ''Error Message''"
  shows "runStream fd ld \<lparr>reading = False, ending = False\<rparr> ''{'' (pre @ l # post) = Some ''{''"
proof -
  have "runStream fd ld \<lparr>reading = False, ending = False\<rparr> ''{'' (pre @ l # post) =
        runStream fd ld \<lparr>reading = False, ending = False\<rparr> ''{'' (l # post)"
    using assms(1) by (intro runStream_idle) auto
  then show ?thesis using assms(2) by (simp add: onDataInline_def)
qed

section \<open>The history window: properties\<close>

text \<open>
  Once the checks pass, the provider answers and both dates are read,
  \<open>getStockHistoryBySymbol\<close> is the scan followed by parsing and formatting.
\<close>

lemma getStockHistoryBySymbol_scans:
  assumes "getValidationErrors env (historyChecks s f t) = None"
    and "getStockHistoryAsStream env s = Some ls"
    and "Date_toISOString env t = Some tt"
    and "Date_toISOString env f = Some ft"
  shows "snd (getStockHistoryBySymbol env s f t) =
     (case scanStreamForTimeInterval ls (split_T_0 tt) (split_T_0 ft) of
        Inl e \<Rightarrow>
          if e = Reason ''fromto'' then Errors [NotFoundError ''from'' f, NotFoundError ''to'' t]
          else if e = Reason ''stock'' then Errors [NotFoundError ''stock_name'' s]
          else Errors [UnknownError]
      | Inr text \<Rightarrow>
          (case JSON_parse env text of
             None \<Rightarrow> Errors [UnknownError]
           | Some members \<Rightarrow>
               (case formatJSONHistoryObject env members of
                  None \<Rightarrow> Errors [UnknownError]
                | Some ps \<Rightarrow>
                    ControllerSuccess
                      \<lparr>GetStockHistoryBySymbol.name = toUpperCase env s, prices = ps\<rparr>)))"
  using assms
  by (simp add: getStockHistoryBySymbol_def searchTimeIntervalInHistory_def Let_def
      split: sum.split option.split)

lemma getStockHistoryBySymbolInline_scans:
  assumes "getValidationErrors env (historyChecks s f t) = None"
    and "getStockHistoryAsStream env s = Some ls"
    and "Date_toISOString env t = Some tt"
    and "Date_toISOString env f = Some ft"
  shows "snd (getStockHistoryBySymbolInline env s f t) =
     (case runStream (split_T_0 tt) (split_T_0 ft) \<lparr>reading = False, ending = False\<rparr> ''{'' ls of
        Some stringResult \<Rightarrow> onPause env s stringResult
      | None \<Rightarrow> Errors [NotFoundError ''from'' f, NotFoundError ''to'' t])"
  using assms by (simp add: getStockHistoryBySymbolInline_def Let_def)

lemma not_appearsIn:
  "\<not> appearsIn token ls \<Longrightarrow> \<forall>l\<in>set ls. \<not> includes_str l token"
  by (simp add: appearsIn_def list_ex_iff)

text \<open>
  Claim C6, amended. When the checks pass, the provider answers, both dates are read,
  neither date appears in any line of the stream and no line holds the error text, the
  result is the two errors \<open>NotFound(from)\<close>, \<open>NotFound(to)\<close>, in both controller files.
\<close>

theorem getStockHistoryBySymbol_dates_absent:
  assumes "getValidationErrors env (historyChecks s f t) = None"
    and "getStockHistoryAsStream env s = Some ls"
    and "Date_toISOString env t = Some tt"
    and "Date_toISOString env f = Some ft"
    and "\<not> appearsIn (split_T_0 tt) ls"
    and "\<not> appearsIn (split_T_0 ft) ls"
    and "\<not> appearsIn ''Error Message'' ls"
  shows "snd (getStockHistoryBySymbol env s f t) =
           Errors [NotFoundError ''from'' f, NotFoundError ''to'' t]
         \<and> snd (getStockHistoryBySymbolInline env s f t) =
           Errors [NotFoundError ''from'' f, NotFoundError ''to'' t]"
proof
  have a: "\<forall>l\<in>set ls. \<not> includes_str l (split_T_0 tt)"
    and b: "\<forall>l\<in>set ls. \<not> includes_str l ''Error Message''"
    using assms(5,7) by (simp_all add: not_appearsIn)
  have "scanStreamForTimeInterval ls (split_T_0 tt) (split_T_0 ft) = Inl (Reason ''fromto'')"
    using a b
    by (intro scanStreamForTimeInterval_nothing)
      (simp add: didntFoundStockInDatabase_def foundStartOfWantedInterval_def)
  then show "snd (getStockHistoryBySymbol env s f t) =
           Errors [NotFoundError ''from'' f, NotFoundError ''to'' t]"
    by (simp add: getStockHistoryBySymbol_scans[OF assms(1-4)])
  have "runStream (split_T_0 tt) (split_T_0 ft) \<lparr>reading = False, ending = False\<rparr> ''{'' (ls @ []) =
        runStream (split_T_0 tt) (split_T_0 ft) \<lparr>reading = False, ending = False\<rparr> ''{'' []"
    using a b by (intro runStream_idle) auto
  then show "snd (getStockHistoryBySymbolInline env s f t) =
           Errors [NotFoundError ''from'' f, NotFoundError ''to'' t]"
    by (simp add: getStockHistoryBySymbolInline_scans[OF assms(1-4)])
qed

text \<open>Facts about the sample collaborators.\<close>

lemma sample_history_valid:
  "f \<noteq> [] \<Longrightarrow> t \<noteq> [] \<Longrightarrow> s \<noteq> [] \<Longrightarrow>
   getValidationErrors sampleEnv (historyChecks s f t) = None"
  by (auto simp: sampleEnv_def sampleValidate_def historyChecks_def)

lemma sample_date:
  "length d = 10 \<Longrightarrow> Date_toISOString sampleEnv d = Some (d @ ''T00:00:00.000Z'')"
  by (simp add: sampleEnv_def sampleDate_def)

lemma sample_token: "CHR ''T'' \<notin> set d \<Longrightarrow> split_T_0 (d @ ''T00:00:00.000Z'') = d"
  by (induction d) (auto simp: split_T_0_def)

lemma sample_stream_ibm: "getStockHistoryAsStream sampleEnv ''ibm'' = Some sampleDocument"
  by (simp add: sampleEnv_def sampleAlpha_def)

lemma sample_stream_unknown: "getStockHistoryAsStream sampleEnv ''unknown'' = Some errorDocument"
  by (simp add: sampleEnv_def sampleAlpha_def)

lemma sample_stream_broken: "getStockHistoryAsStream sampleEnv ''broken'' = Some brokenDocument"
  by (simp add: sampleEnv_def sampleAlpha_def)

lemma sample_absent_11:
  "\<not> appearsIn ''2022-11-11'' sampleDocument" "\<not> appearsIn ''2022-11-15'' sampleDocument"
  "\<not> appearsIn ''Error Message'' sampleDocument"
  by code_simp+

text \<open>The request of the test suite for two days that are not in the document.\<close>

theorem getStockHistoryBySymbol_dates_absent_witness:
  "snd (getStockHistoryBySymbol sampleEnv ''ibm'' ''2022-11-11'' ''2022-11-15'') =
     Errors [NotFoundError ''from'' ''2022-11-11'', NotFoundError ''to'' ''2022-11-15'']
   \<and> snd (getStockHistoryBySymbolInline sampleEnv ''ibm'' ''2022-11-11'' ''2022-11-15'') =
     Errors [NotFoundError ''from'' ''2022-11-11'', NotFoundError ''to'' ''2022-11-15'']"
  by (rule getStockHistoryBySymbol_dates_absent
      [where ls = sampleDocument and tt = "''2022-11-15T00:00:00.000Z''"
         and ft = "''2022-11-11T00:00:00.000Z''"])
    (simp_all add: sample_history_valid sample_stream_ibm sample_date
      sample_token[of "''2022-11-15''", simplified] sample_token[of "''2022-11-11''", simplified]
      sample_absent_11)


text \<open>
  The provider's error document holds neither date, and the result is the single error
  \<open>NotFound(stock_name)\<close>, not the two errors for the dates.
\<close>

lemma sample_absent_error:
  "\<not> appearsIn ''2022-11-18'' errorDocument" "\<not> appearsIn ''2022-11-22'' errorDocument"
  by code_simp+

lemma sample_scan_error:
  "scanStreamForTimeInterval errorDocument ''2022-11-22'' ''2022-11-18'' = Inl (Reason ''stock'')"
  by code_simp

lemma sample_run_error:
  "runStream ''2022-11-22'' ''2022-11-18'' \<lparr>reading = False, ending = False\<rparr> ''{'' errorDocument
     = Some ''{''"
  by code_simp

lemmas sample_dates =
  sample_token[of "''2022-11-22''", simplified] sample_token[of "''2022-11-21''", simplified]
  sample_token[of "''2022-11-18''", simplified] sample_token[of "''2022-11-15''", simplified]
  sample_token[of "''2022-11-11''", simplified] sample_token[of "''2022-11-25''", simplified]

lemma sample_history_unknown:
  "snd (getStockHistoryBySymbol sampleEnv ''unknown'' ''2022-11-18'' ''2022-11-22'') =
     Errors [NotFoundError ''stock_name'' ''unknown'']"
  "snd (getStockHistoryBySymbolInline sampleEnv ''unknown'' ''2022-11-18'' ''2022-11-22'') =
     Errors [NotFoundError ''stock_name'' ''unknown'']"
  by (simp_all add: getStockHistoryBySymbol_scans[OF sample_history_valid sample_stream_unknown sample_date sample_date]
      getStockHistoryBySymbolInline_scans[OF sample_history_valid sample_stream_unknown sample_date sample_date]
      sample_dates sample_scan_error sample_run_error onPause_def)

theorem getStockHistoryBySymbol_dates_absent_counterexample:
  "getStockHistoryAsStream sampleEnv ''unknown'' = Some errorDocument
   \<and> \<not> appearsIn ''2022-11-18'' errorDocument
   \<and> \<not> appearsIn ''2022-11-22'' errorDocument
   \<and> snd (getStockHistoryBySymbol sampleEnv ''unknown'' ''2022-11-18'' ''2022-11-22'') =
       Errors [NotFoundError ''stock_name'' ''unknown'']
   \<and> snd (getStockHistoryBySymbolInline sampleEnv ''unknown'' ''2022-11-18'' ''2022-11-22'') =
       Errors [NotFoundError ''stock_name'' ''unknown'']
   \<and> Errors [NotFoundError ''stock_name'' ''unknown''] \<noteq>
       (Errors [NotFoundError ''from'' ''2022-11-18'', NotFoundError ''to'' ''2022-11-22'']
          :: GetStockHistoryBySymbol response)"
  by (simp add: sample_stream_unknown sample_absent_error sample_history_unknown)


subsection \<open>The error line\<close>

lemma onData_never_fromto:
  "p \<noteq> Some (Inl (Reason ''fromto'')) \<Longrightarrow>
   snd (snd (onData fd ld (st, r, p) l)) \<noteq> Some (Inl (Reason ''fromto''))"
  by (auto simp: onData_def Let_def resolve_def reject_def split: option.splits)

lemma foldl_onData_never_fromto:
  "p \<noteq> Some (Inl (Reason ''fromto'')) \<Longrightarrow>
   snd (snd (foldl (onData fd ld) (st, r, p) ls)) \<noteq> Some (Inl (Reason ''fromto''))"
proof (induction ls arbitrary: st r p)
  case Nil
  then show ?case by simp
next
  case (Cons l ls)
  obtain st' r' p' where s: "onData fd ld (st, r, p) l = (st', r', p')"
    by (cases "onData fd ld (st, r, p) l") auto
  with onData_never_fromto[OF Cons.prems, of fd ld st r l]
  have "p' \<noteq> Some (Inl (Reason ''fromto''))" by simp
  with s Cons.IH[of p' st' r'] show ?case by simp
qed

lemma scan_fromto_unsettled:
  assumes "scanStreamForTimeInterval ls fd ld = Inl (Reason ''fromto'')"
  shows "snd (snd (foldl (onData fd ld) (\<lparr>reading = False, ending = False\<rparr>, ''{'', None) ls)) = None"
proof (cases "snd (snd (foldl (onData fd ld) (\<lparr>reading = False, ending = False\<rparr>, ''{'', None) ls))")
  case None
  then show ?thesis .
next
  case (Some x)
  with scan_settled[OF Some] assms
    foldl_onData_never_fromto[of None fd ld "\<lparr>reading = False, ending = False\<rparr>" "''{''" ls]
  show ?thesis by simp
qed

text \<open>
  With \<open>HistorySearcher\<close>: if a line holds the error text and the lines before it do not
  complete the extraction by themselves, the result is the single error
  \<open>NotFound(stock_name)\<close>, whether or not lines of the interval have been gathered.
\<close>

lemma getStockHistoryBySymbol_error_line:
  assumes "getValidationErrors env (historyChecks s f t) = None"
    and "getStockHistoryAsStream env s = Some (pre @ l # post)"
    and "Date_toISOString env t = Some tt"
    and "Date_toISOString env f = Some ft"
    and "scanStreamForTimeInterval pre (split_T_0 tt) (split_T_0 ft) = Inl (Reason ''fromto'')"
    and "includes_str l ''Error Message''"
  shows "snd (getStockHistoryBySymbol env s f t) = Errors [NotFoundError ''stock_name'' s]"
proof -
  have "scanStreamForTimeInterval (pre @ l # post) (split_T_0 tt) (split_T_0 ft) =
          Inl (Reason ''stock'')"
    using scan_fromto_unsettled[OF assms(5)] assms(6)
    by (intro scanStreamForTimeInterval_error_line) (simp_all add: didntFoundStockInDatabase_def)
  then show ?thesis by (simp add: getStockHistoryBySymbol_scans[OF assms(1-4)])
qed

text \<open>
  With the callbacks of the controller, only for an error line that comes before the
  interval starts.
\<close>

lemma getStockHistoryBySymbolInline_error_line_first:
  assumes "getValidationErrors env (historyChecks s f t) = None"
    and "getStockHistoryAsStream env s = Some (pre @ l # post)"
    and "Date_toISOString env t = Some tt"
    and "Date_toISOString env f = Some ft"
    and "\<forall>l\<in>set pre. \<not> includes_str l ''Error Message'' \<and>
           \<not> (includes_str l (split_T_0 tt) \<and> includes_str l ''{'')"
    and "includes_str l ''Error Message''"
  shows "snd (getStockHistoryBySymbolInline env s f t) = Errors [NotFoundError ''stock_name'' s]"
  by (simp add: getStockHistoryBySymbolInline_scans[OF assms(1-4)]
      runStream_error_line_first[OF assms(5,6)] onPause_def)

subsection \<open>The window\<close>

lemma startsWith_length: "startsWith s p \<Longrightarrow> length p \<le> length s"
proof -
  assume "startsWith s p"
  then have "length (take (length p) s) = length p" by (simp add: startsWith_def)
  then show ?thesis by simp
qed

lemma includes_str_length: "includes_str l p \<Longrightarrow> length p \<le> length l"
  by (induction l) (auto dest: startsWith_length)

lemma endsWith_comma: "endsWith r '','' \<longleftrightarrow> r \<noteq> [] \<and> last r = CHR '',''"
  by (cases r rule: rev_cases) (auto simp: endsWith_def)

text \<open>The comma is removed only when the text gathered ends with one.\<close>

lemma removeLastCommaIfNecessary_conditional:
  "removeLastCommaIfNecessary r = (if r \<noteq> [] \<and> last r = CHR '','' then butlast r else r)"
  by (simp add: removeLastCommaIfNecessary_def endsWith_comma slice_0_minus1_def)

text \<open>
  With \<open>HistorySearcher\<close>, a window as in \<open>scanStreamForTimeInterval_window\<close> is parsed and
  formatted: the result is a success with the points of the window.
\<close>

lemma getStockHistoryBySymbol_window:
  assumes "getValidationErrors env (historyChecks s f t) = None"
    and "getStockHistoryAsStream env s = Some (pre @ w1 @ w2 @ c # post)"
    and "Date_toISOString env t = Some tt"
    and "Date_toISOString env f = Some ft"
    and "\<forall>l\<in>set pre. \<not> includes_str l ''Error Message'' \<and>
           \<not> (includes_str l (split_T_0 tt) \<and> includes_str l ''{'')"
    and "\<forall>l\<in>set (w1 @ w2 @ [c]). \<not> includes_str l ''Error Message''"
    and "includes_str (hd (w1 @ w2 @ [c])) (split_T_0 tt) \<and> includes_str (hd (w1 @ w2 @ [c])) ''{''"
    and "\<forall>l\<in>set w1. \<not> (includes_str l (split_T_0 ft) \<and> includes_str l ''{'')"
    and "includes_str (hd (w2 @ [c])) (split_T_0 ft) \<and> includes_str (hd (w2 @ [c])) ''{''"
    and "\<forall>l\<in>set w2. \<not> includes_str l ''}''"
    and "includes_str c ''}''"
    and "JSON_parse env (removeLastCommaIfNecessary (''{'' @ concat (w1 @ w2 @ [c])) @ ''}'') =
           Some members"
    and "formatJSONHistoryObject env members = Some ps"
  shows "snd (getStockHistoryBySymbol env s f t) =
           ControllerSuccess \<lparr>GetStockHistoryBySymbol.name = toUpperCase env s, prices = ps\<rparr>"
proof -
  have "scanStreamForTimeInterval (pre @ w1 @ w2 @ c # post) (split_T_0 tt) (split_T_0 ft) =
          Inr (removeLastCommaIfNecessary (''{'' @ concat (w1 @ w2 @ [c])) @ ''}'')"
    using assms(5-11)
    by (intro scanStreamForTimeInterval_window)
      (simp_all add: didntFoundStockInDatabase_def foundStartOfWantedInterval_def
        foundEndOfWantedInterval_def)
  then show ?thesis
    using assms(12,13) by (simp add: getStockHistoryBySymbol_scans[OF assms(1-4)])
qed

text \<open>
  The same for the callbacks of the controller, where the closing line must hold a brace
  followed by a comma and the last character is dropped unconditionally.
\<close>

lemma getStockHistoryBySymbolInline_window:
  assumes "getValidationErrors env (historyChecks s f t) = None"
    and "getStockHistoryAsStream env s = Some (pre @ w1 @ w2 @ c # post)"
    and "Date_toISOString env t = Some tt"
    and "Date_toISOString env f = Some ft"
    and "\<forall>l\<in>set pre. \<not> includes_str l ''Error Message'' \<and>
           \<not> (includes_str l (split_T_0 tt) \<and> includes_str l ''{'')"
    and "\<forall>l\<in>set (w1 @ w2 @ [c]). \<not> includes_str l ''Error Message''"
    and "includes_str (hd (w1 @ w2 @ [c])) (split_T_0 tt) \<and> includes_str (hd (w1 @ w2 @ [c])) ''{''"
    and "\<forall>l\<in>set w1. \<not> (includes_str l (split_T_0 ft) \<and> includes_str l ''{'')"
    and "includes_str (hd (w2 @ [c])) (split_T_0 ft) \<and> includes_str (hd (w2 @ [c])) ''{''"
    and "\<forall>l\<in>set w2. \<not> includes_str l ''},''"
    and "includes_str c ''},''"
    and "JSON_parse env (slice_0_minus1 (''{'' @ concat (w1 @ w2 @ [c])) @ ''}'') = Some members"
    and "formatJSONHistoryObject env members = Some ps"
  shows "snd (getStockHistoryBySymbolInline env s f t) =
           ControllerSuccess \<lparr>GetStockHistoryBySymbol.name = toUpperCase env s, prices = ps\<rparr>"
proof -
  have r: "runStream (split_T_0 tt) (split_T_0 ft) \<lparr>reading = False, ending = False\<rparr> ''{''
          (pre @ w1 @ w2 @ c # post) = Some (slice_0_minus1 (''{'' @ concat (w1 @ w2 @ [c])))"
    using assms(5-11) by (intro runStream_window) simp_all
  have "2 \<le> length c" using includes_str_length[OF assms(11)] by simp
  then have "length (slice_0_minus1 (''{'' @ concat (w1 @ w2 @ [c])) @ ''}'') \<noteq> length ''{}''"
    by (simp add: slice_0_minus1_def)
  then have "slice_0_minus1 (''{'' @ concat (w1 @ w2 @ [c])) @ ''}'' \<noteq> ''{}''"
    by metis
  then show ?thesis
    using assms(12,13) r
    by (simp add: getStockHistoryBySymbolInline_scans[OF assms(1-4)] onPause_def Let_def)
qed

text \<open>
  But when no line holds a closing brace followed by a comma, as when the interval ends
  with the last record of the document, the callbacks of the controller never pause the
  stream, and the result is the two errors for the dates although the interval is there.
\<close>

lemma getStockHistoryBySymbolInline_last_record:
  assumes "getValidationErrors env (historyChecks s f t) = None"
    and "getStockHistoryAsStream env s = Some ls"
    and "Date_toISOString env t = Some tt"
    and "Date_toISOString env f = Some ft"
    and "\<forall>l\<in>set ls. \<not> includes_str l ''Error Message'' \<and> \<not> includes_str l ''},''"
  shows "snd (getStockHistoryBySymbolInline env s f t) =
           Errors [NotFoundError ''from'' f, NotFoundError ''to'' t]"
  by (simp add: getStockHistoryBySymbolInline_scans[OF assms(1-4)]
      runStream_never_paused[OF assms(5)])


subsection \<open>The sample document\<close>

lemma sample_format:
  "formatJSONHistoryObject sampleEnv [day22] = Some [point22]"
  "formatJSONHistoryObject sampleEnv [day18] = Some [point18]"
  "formatJSONHistoryObject sampleEnv [day22, day21, day18] = Some [point22, point21, point18]"
  by code_simp+

lemma sample_parse:
  \<open>JSON_parse sampleEnv ''{"2022-11-22": {"1. open": "147.6","2. high": "149.35","3. low": "147.02","4. close": "149.1"}}'' = Some [day22]\<close>
  \<open>JSON_parse sampleEnv ''{"2022-11-18": {"1. open": "146.56","2. high": "148.31","3. low": "145.94","4. close": "147.64"}}'' = Some [day18]\<close>
  \<open>JSON_parse sampleEnv ''{"2022-11-22": {"1. open": "147.6","2. high": "149.35","3. low": "147.02","4. close": "149.1"},"2022-11-21": {"1. open": "147.55","2. high": "147.928","3. low": "146.45","4. close": "146.68"},"2022-11-18": {"1. open": "146.56","2. high": "148.31","3. low": "145.94","4. close": "147.64"}}'' = Some [day22, day21, day18]\<close>
  by (simp_all add: sampleEnv_def sampleParses_def)

lemma sample_scan:
  \<open>scanStreamForTimeInterval sampleDocument ''2022-11-22'' ''2022-11-22'' = Inr ''{"2022-11-22": {"1. open": "147.6","2. high": "149.35","3. low": "147.02","4. close": "149.1"}}''\<close>
  \<open>scanStreamForTimeInterval sampleDocument ''2022-11-18'' ''2022-11-18'' = Inr ''{"2022-11-18": {"1. open": "146.56","2. high": "148.31","3. low": "145.94","4. close": "147.64"}}''\<close>
  \<open>scanStreamForTimeInterval sampleDocument ''2022-11-22'' ''2022-11-18'' = Inr ''{"2022-11-22": {"1. open": "147.6","2. high": "149.35","3. low": "147.02","4. close": "149.1"},"2022-11-21": {"1. open": "147.55","2. high": "147.928","3. low": "146.45","4. close": "146.68"},"2022-11-18": {"1. open": "146.56","2. high": "148.31","3. low": "145.94","4. close": "147.64"}}''\<close>
  \<open>scanStreamForTimeInterval brokenDocument ''2022-11-22'' ''2022-11-21'' = Inl (Reason ''stock'')\<close>
  \<open>scanStreamForTimeInterval sampleDocument ''2022-11-25'' ''2022-11-25'' = Inl (Reason ''fromto'')\<close>
  by code_simp+

lemma sample_run:
  \<open>runStream ''2022-11-22'' ''2022-11-22'' \<lparr>reading = False, ending = False\<rparr> ''{'' sampleDocument
     = Some ''{"2022-11-22": {"1. open": "147.6","2. high": "149.35","3. low": "147.02","4. close": "149.1"}''\<close>
  \<open>runStream ''2022-11-18'' ''2022-11-18'' \<lparr>reading = False, ending = False\<rparr> ''{'' sampleDocument
     = None\<close>
  \<open>runStream ''2022-11-22'' ''2022-11-18'' \<lparr>reading = False, ending = False\<rparr> ''{'' sampleDocument
     = None\<close>
  \<open>runStream ''2022-11-22'' ''2022-11-21'' \<lparr>reading = False, ending = False\<rparr> ''{'' brokenDocument
     = Some ''{"2022-11-22": {"1. open": "147.6","2. high": "149.35","3. low": "147.02","4. close": "149.1"}''\<close>
  \<open>runStream ''2022-11-25'' ''2022-11-25'' \<lparr>reading = False, ending = False\<rparr> ''{'' sampleDocument
     = None\<close>
  by code_simp+

lemma sample_history_eval:
  assumes "length f = 10" and "length t = 10" and "s \<noteq> []"
    and "CHR ''T'' \<notin> set f" and "CHR ''T'' \<notin> set t"
    and "getStockHistoryAsStream sampleEnv s = Some ls"
  shows "snd (getStockHistoryBySymbol sampleEnv s f t) =
     (case scanStreamForTimeInterval ls t f of
        Inl e \<Rightarrow>
          if e = Reason ''fromto'' then Errors [NotFoundError ''from'' f, NotFoundError ''to'' t]
          else if e = Reason ''stock'' then Errors [NotFoundError ''stock_name'' s]
          else Errors [UnknownError]
      | Inr text \<Rightarrow>
          (case JSON_parse sampleEnv text of
             None \<Rightarrow> Errors [UnknownError]
           | Some members \<Rightarrow>
               (case formatJSONHistoryObject sampleEnv members of
                  None \<Rightarrow> Errors [UnknownError]
                | Some ps \<Rightarrow>
                    ControllerSuccess
                      \<lparr>GetStockHistoryBySymbol.name = asciiUpper s, prices = ps\<rparr>)))"
    and "snd (getStockHistoryBySymbolInline sampleEnv s f t) =
     (case runStream t f \<lparr>reading = False, ending = False\<rparr> ''{'' ls of
        Some stringResult \<Rightarrow> onPause sampleEnv s stringResult
      | None \<Rightarrow> Errors [NotFoundError ''from'' f, NotFoundError ''to'' t])"
proof -
  have v: "getValidationErrors sampleEnv (historyChecks s f t) = None"
    using assms(1-3) by (intro sample_history_valid) auto
  have df: "Date_toISOString sampleEnv f = Some (f @ ''T00:00:00.000Z'')"
    and dt: "Date_toISOString sampleEnv t = Some (t @ ''T00:00:00.000Z'')"
    using assms(1,2) by (simp_all add: sample_date)
  have u: "toUpperCase sampleEnv s = asciiUpper s" by (simp add: sampleEnv_def)
  show "snd (getStockHistoryBySymbol sampleEnv s f t) =
     (case scanStreamForTimeInterval ls t f of
        Inl e \<Rightarrow>
          if e = Reason ''fromto'' then Errors [NotFoundError ''from'' f, NotFoundError ''to'' t]
          else if e = Reason ''stock'' then Errors [NotFoundError ''stock_name'' s]
          else Errors [UnknownError]
      | Inr text \<Rightarrow>
          (case JSON_parse sampleEnv text of
             None \<Rightarrow> Errors [UnknownError]
           | Some members \<Rightarrow>
               (case formatJSONHistoryObject sampleEnv members of
                  None \<Rightarrow> Errors [UnknownError]
                | Some ps \<Rightarrow>
                    ControllerSuccess
                      \<lparr>GetStockHistoryBySymbol.name = asciiUpper s, prices = ps\<rparr>)))"
    by (simp add: getStockHistoryBySymbol_scans[OF v assms(6) dt df] sample_token assms(4,5) u
        split: sum.split option.split)
  show "snd (getStockHistoryBySymbolInline sampleEnv s f t) =
     (case runStream t f \<lparr>reading = False, ending = False\<rparr> ''{'' ls of
        Some stringResult \<Rightarrow> onPause sampleEnv s stringResult
      | None \<Rightarrow> Errors [NotFoundError ''from'' f, NotFoundError ''to'' t])"
    by (simp add: getStockHistoryBySymbolInline_scans[OF v assms(6) dt df] sample_token assms(4,5))
qed

lemma sample_upper: "asciiUpper ''ibm'' = ''IBM''" "asciiUpper ''broken'' = ''BROKEN''"
  by code_simp+

lemma sample_onPause:
  \<open>onPause sampleEnv s ''{"2022-11-22": {"1. open": "147.6","2. high": "149.35","3. low": "147.02","4. close": "149.1"}'' =
     ControllerSuccess \<lparr>GetStockHistoryBySymbol.name = asciiUpper s, prices = [point22]\<rparr>\<close>
  by (simp add: onPause_def sample_parse sample_format) (simp add: sampleEnv_def)

lemma sample_history_22:
  "snd (getStockHistoryBySymbol sampleEnv ''ibm'' ''2022-11-22'' ''2022-11-22'') =
     ControllerSuccess \<lparr>GetStockHistoryBySymbol.name = ''IBM'', prices = [point22]\<rparr>"
  "snd (getStockHistoryBySymbolInline sampleEnv ''ibm'' ''2022-11-22'' ''2022-11-22'') =
     ControllerSuccess \<lparr>GetStockHistoryBySymbol.name = ''IBM'', prices = [point22]\<rparr>"
  by (simp_all add: sample_history_eval[OF _ _ _ _ _ sample_stream_ibm] sample_scan
      sample_run sample_parse sample_format sample_onPause sample_upper)


lemma sample_history_18:
  "snd (getStockHistoryBySymbol sampleEnv ''ibm'' ''2022-11-18'' ''2022-11-18'') =
     ControllerSuccess \<lparr>GetStockHistoryBySymbol.name = ''IBM'', prices = [point18]\<rparr>"
  "snd (getStockHistoryBySymbolInline sampleEnv ''ibm'' ''2022-11-18'' ''2022-11-18'') =
     Errors [NotFoundError ''from'' ''2022-11-18'', NotFoundError ''to'' ''2022-11-18'']"
  by (simp_all add: sample_history_eval[OF _ _ _ _ _ sample_stream_ibm] sample_scan
      sample_run sample_parse sample_format sample_upper)

lemma sample_history_all:
  "snd (getStockHistoryBySymbol sampleEnv ''ibm'' ''2022-11-18'' ''2022-11-22'') =
     ControllerSuccess
       \<lparr>GetStockHistoryBySymbol.name = ''IBM'', prices = [point22, point21, point18]\<rparr>"
  "snd (getStockHistoryBySymbolInline sampleEnv ''ibm'' ''2022-11-18'' ''2022-11-22'') =
     Errors [NotFoundError ''from'' ''2022-11-18'', NotFoundError ''to'' ''2022-11-22'']"
  by (simp_all add: sample_history_eval[OF _ _ _ _ _ sample_stream_ibm] sample_scan
      sample_run sample_parse sample_format sample_upper)

lemma sample_history_broken:
  "snd (getStockHistoryBySymbol sampleEnv ''broken'' ''2022-11-21'' ''2022-11-22'') =
     Errors [NotFoundError ''stock_name'' ''broken'']"
  "snd (getStockHistoryBySymbolInline sampleEnv ''broken'' ''2022-11-21'' ''2022-11-22'') =
     ControllerSuccess \<lparr>GetStockHistoryBySymbol.name = ''BROKEN'', prices = [point22]\<rparr>"
  by (simp_all add: sample_history_eval[OF _ _ _ _ _ sample_stream_broken] sample_scan
      sample_run sample_onPause sample_upper)

lemma sample_history_25:
  "snd (getStockHistoryBySymbol sampleEnv ''ibm'' ''2022-11-25'' ''2022-11-25'') =
     Errors [NotFoundError ''from'' ''2022-11-25'', NotFoundError ''to'' ''2022-11-25'']"
  "snd (getStockHistoryBySymbolInline sampleEnv ''ibm'' ''2022-11-25'' ''2022-11-25'') =
     Errors [NotFoundError ''from'' ''2022-11-25'', NotFoundError ''to'' ''2022-11-25'']"
  by (simp_all add: sample_history_eval[OF _ _ _ _ _ sample_stream_ibm] sample_scan sample_run)

text \<open>
  Claim C2: an interval that ends with the last record of the document, whose closing
  line has no comma after the brace. The request is the one of the regression test of the
  test suite. The controller with \<open>HistorySearcher\<close> returns the three points; the
  callbacks of the other controller file wait for a brace followed by a comma, never
  pause the stream, and the result is the two errors for the dates.
\<close>

theorem last_record_window_evaluated:
  "snd (getStockHistoryBySymbolInline sampleEnv ''ibm'' ''2022-11-18'' ''2022-11-22'') =
     Errors [NotFoundError ''from'' ''2022-11-18'', NotFoundError ''to'' ''2022-11-22'']
   \<and> snd (getStockHistoryBySymbol sampleEnv ''ibm'' ''2022-11-18'' ''2022-11-22'') =
     ControllerSuccess
       \<lparr>GetStockHistoryBySymbol.name = ''IBM'', prices = [point22, point21, point18]\<rparr>"
  by (simp add: sample_history_all)

text \<open>
  Claim C4: a single day. For the first day of the sample document both controller files
  return its one point from the one line that starts and ends the interval. For the last
  day the controller with \<open>HistorySearcher\<close> does, and the callbacks of the other
  controller file return the two errors for the dates, for the reason given at claim C2.
\<close>

theorem single_day_evaluated:
  "snd (getStockHistoryBySymbol sampleEnv ''ibm'' ''2022-11-22'' ''2022-11-22'') =
     ControllerSuccess \<lparr>GetStockHistoryBySymbol.name = ''IBM'', prices = [point22]\<rparr>
   \<and> snd (getStockHistoryBySymbolInline sampleEnv ''ibm'' ''2022-11-22'' ''2022-11-22'') =
     ControllerSuccess \<lparr>GetStockHistoryBySymbol.name = ''IBM'', prices = [point22]\<rparr>
   \<and> snd (getStockHistoryBySymbol sampleEnv ''ibm'' ''2022-11-18'' ''2022-11-18'') =
     ControllerSuccess \<lparr>GetStockHistoryBySymbol.name = ''IBM'', prices = [point18]\<rparr>
   \<and> snd (getStockHistoryBySymbolInline sampleEnv ''ibm'' ''2022-11-18'' ''2022-11-18'') =
     Errors [NotFoundError ''from'' ''2022-11-18'', NotFoundError ''to'' ''2022-11-18'']"
  by (simp add: sample_history_22 sample_history_18)

text \<open>
  Claim C7: the error line after lines of the interval have been gathered. The stream is
  a day's record followed by the provider's error line, and the interval asked for goes
  on to the day before. The controller with \<open>HistorySearcher\<close> returns the single error
  \<open>NotFound(stock_name)\<close>. In the other controller file the \<open>'pause'\<close> callback takes the
  text for an error only when nothing was gathered; here it parses what was gathered and
  returns it as a success.
\<close>

theorem error_line_during_accumulation_evaluated:
  "snd (getStockHistoryBySymbolInline sampleEnv ''broken'' ''2022-11-21'' ''2022-11-22'') =
     ControllerSuccess \<lparr>GetStockHistoryBySymbol.name = ''BROKEN'', prices = [point22]\<rparr>
   \<and> snd (getStockHistoryBySymbol sampleEnv ''broken'' ''2022-11-21'' ''2022-11-22'') =
     Errors [NotFoundError ''stock_name'' ''broken'']"
  by (simp add: sample_history_broken)

section \<open>Gains projection: properties\<close>

lemma getStockHistoryBySymbol_caught: "snd (getStockHistoryBySymbol env s f t) \<noteq> Uncaught"
  by (simp add: getStockHistoryBySymbol_def Let_def split: option.split sum.split)

text \<open>Once its checks pass, \<open>projectGains\<close> awaits both lookups and combines them.\<close>

lemma projectGains_valid:
  assumes "getValidationErrors env (gainsChecks s a d) = None"
  shows "snd (projectGains env s a d) =
           awaitBoth (snd (getStockBySymbol env s)) (snd (getStockHistoryBySymbol env s d d))
             (combineGains env s a d)"
    and "snd (projectGainsInline env s a d) =
           awaitBoth (snd (getStockBySymbol env s)) (snd (getStockHistoryBySymbolInline env s d d))
             (combineGainsInline env s a d)"
  using assms by (simp_all add: projectGains_def projectGainsInline_def Let_def split: prod.split)

text \<open>A successful projection comes from two successful lookups.\<close>

lemma awaitBoth_success: "awaitBoth x y k = ControllerSuccess g \<Longrightarrow> k x y = ControllerSuccess g"
  by (simp add: awaitBoth_def split: if_splits)

lemma combineGains_success:
  "combineGains env s a d tv ov = ControllerSuccess g \<Longrightarrow>
   \<exists>today onDate. tv = ControllerSuccess today \<and> ov = ControllerSuccess onDate \<and>
     assembleGains env s a d today onDate = ControllerSuccess g"
  by (cases tv; cases ov) (simp_all add: combineGains_def split: if_splits)

lemma combineGainsInline_success:
  "combineGainsInline env s a d tv ov = ControllerSuccess g \<Longrightarrow>
   \<exists>today onDate. tv = ControllerSuccess today \<and> ov = ControllerSuccess onDate \<and>
     assembleGains env s a d today onDate = ControllerSuccess g"
  by (cases tv; cases ov) (simp_all add: combineGainsInline_def split: if_splits)

lemma projectGains_success:
  assumes "snd (projectGains env s a d) = ControllerSuccess g"
  shows "\<exists>today onDate. snd (getStockBySymbol env s) = ControllerSuccess today \<and>
     snd (getStockHistoryBySymbol env s d d) = ControllerSuccess onDate \<and>
     assembleGains env s a d today onDate = ControllerSuccess g"
proof (cases "getValidationErrors env (gainsChecks s a d)")
  case None
  from assms have "awaitBoth (snd (getStockBySymbol env s))
      (snd (getStockHistoryBySymbol env s d d)) (combineGains env s a d) = ControllerSuccess g"
    by (simp add: projectGains_valid(1)[OF None])
  then have "combineGains env s a d (snd (getStockBySymbol env s))
      (snd (getStockHistoryBySymbol env s d d)) = ControllerSuccess g"
    by (rule awaitBoth_success)
  then show ?thesis by (rule combineGains_success)
next
  case (Some es)
  with assms show ?thesis by (simp add: projectGains_def)
qed

lemma projectGainsInline_success:
  assumes "snd (projectGainsInline env s a d) = ControllerSuccess g"
  shows "\<exists>today onDate. snd (getStockBySymbol env s) = ControllerSuccess today \<and>
     snd (getStockHistoryBySymbolInline env s d d) = ControllerSuccess onDate \<and>
     assembleGains env s a d today onDate = ControllerSuccess g"
proof (cases "getValidationErrors env (gainsChecks s a d)")
  case None
  from assms have "awaitBoth (snd (getStockBySymbol env s))
      (snd (getStockHistoryBySymbolInline env s d d)) (combineGainsInline env s a d) =
      ControllerSuccess g"
    by (simp add: projectGains_valid(2)[OF None])
  then have "combineGainsInline env s a d (snd (getStockBySymbol env s))
      (snd (getStockHistoryBySymbolInline env s d d)) = ControllerSuccess g"
    by (rule awaitBoth_success)
  then show ?thesis by (rule combineGainsInline_success)
next
  case (Some es)
  with assms show ?thesis by (simp add: projectGainsInline_def)
qed

lemma assembleGains_success:
  assumes "assembleGains env s a d today onDate = ControllerSuccess g"
  shows "GetProjectedGains.name g = toUpperCase env s"
    and "\<exists>p rest. prices onDate = p # rest \<and>
      capitalGains g =
        Number_toFixed2
          (js_sub (js_mul (GetStockBySymbol.lastPrice today) (NumberOfString env a))
                  (js_mul (closing p) (NumberOfString env a)))"
  using assms by (auto simp: assembleGains_def Let_def split: list.splits option.splits)

text \<open>
  Claim C1, amended. In \<open>projectGains\<close>, once the checks pass, a failure of the quote
  lookup is what is returned, whatever the history lookup gives: as it is in the
  controller with \<open>HistorySearcher\<close>; in the other controller file after the rewriting of
  a two-element list that starts with a not-found error, and provided the history promise
  settles at all. The failure of the history lookup, after that rewriting, is returned
  only when the quote lookup succeeds.
\<close>

theorem projectGains_quote_failure_first:
  assumes "getValidationErrors env (gainsChecks s a d) = None"
  shows "(snd (getStockBySymbol env s) = Errors es \<longrightarrow> snd (projectGains env s a d) = Errors es)
    \<and> (snd (getStockBySymbol env s) = Errors es \<longrightarrow>
         snd (getStockHistoryBySymbolInline env s d d) \<noteq> Uncaught \<longrightarrow>
         snd (projectGainsInline env s a d) =
           Errors (if didNotFindDate es then [NotFoundError ''purchasedAt'' d] else es))
    \<and> (snd (getStockBySymbol env s) = ControllerSuccess q \<longrightarrow>
         snd (getStockHistoryBySymbol env s d d) = Errors hs \<longrightarrow>
         snd (projectGains env s a d) =
           Errors (if didNotFindDate hs then [NotFoundError ''purchasedAt'' d] else hs))
    \<and> (snd (getStockBySymbol env s) = ControllerSuccess q \<longrightarrow>
         snd (getStockHistoryBySymbolInline env s d d) = Errors hs \<longrightarrow>
         snd (projectGainsInline env s a d) =
           Errors (if didNotFindDate hs then [NotFoundError ''purchasedAt'' d] else hs))"
  using getStockHistoryBySymbol_caught[of env s d d]
  by (simp add: projectGains_valid[OF assms] awaitBoth_def combineGains_def
      combineGainsInline_def)

text \<open>
  Claim C3, amended. When the checks pass, the quote lookup succeeds and the single-day
  history lookup fails with the two errors \<open>NotFound(from)\<close>, \<open>NotFound(to)\<close>, the caller
  receives exactly the single error \<open>NotFound(purchasedAt)\<close>.
\<close>

theorem projectGains_date_not_found:
  assumes "getValidationErrors env (gainsChecks s a d) = None"
    and "snd (getStockBySymbol env s) = ControllerSuccess q"
  shows "(snd (getStockHistoryBySymbol env s d d) =
            Errors [NotFoundError ''from'' d, NotFoundError ''to'' d] \<longrightarrow>
          snd (projectGains env s a d) = Errors [NotFoundError ''purchasedAt'' d])
    \<and> (snd (getStockHistoryBySymbolInline env s d d) =
            Errors [NotFoundError ''from'' d, NotFoundError ''to'' d] \<longrightarrow>
          snd (projectGainsInline env s a d) = Errors [NotFoundError ''purchasedAt'' d])"
  using assms(2)
  by (simp add: projectGains_valid[OF assms(1)] awaitBoth_def combineGains_def
      combineGainsInline_def didNotFindDate_def)


text \<open>Facts about the sample collaborators.\<close>

lemma sample_gains_valid:
  "s \<noteq> [] \<Longrightarrow> a \<noteq> [] \<Longrightarrow> d \<noteq> [] \<Longrightarrow> getValidationErrors sampleEnv (gainsChecks s a d) = None"
  by (auto simp: sampleEnv_def sampleValidate_def gainsChecks_def)

lemma sample_quote_acme:
  "getStockBySymbol sampleEnv ''acme'' =
     ([Validate [(STRING, ''stock_name'', [''acme''])], Yahoo ''acme''], Errors [UnknownError])"
  by (simp add: getStockBySymbol_def sampleEnv_def sampleValidate_def sampleYahoo_def)

lemma sample_stream_other:
  "s \<noteq> ''unknown'' \<Longrightarrow> s \<noteq> ''broken'' \<Longrightarrow>
   getStockHistoryAsStream sampleEnv s = Some sampleDocument"
  by (simp add: sampleEnv_def sampleAlpha_def)

lemma sample_history_25_other:
  assumes "s \<noteq> []" and "s \<noteq> ''unknown''" and "s \<noteq> ''broken''"
  shows "snd (getStockHistoryBySymbol sampleEnv s ''2022-11-25'' ''2022-11-25'') =
           Errors [NotFoundError ''from'' ''2022-11-25'', NotFoundError ''to'' ''2022-11-25'']"
    and "snd (getStockHistoryBySymbolInline sampleEnv s ''2022-11-25'' ''2022-11-25'') =
           Errors [NotFoundError ''from'' ''2022-11-25'', NotFoundError ''to'' ''2022-11-25'']"
  using assms(1)
  by (simp_all add: sample_history_eval[OF _ _ _ _ _ sample_stream_other[OF assms(2,3)]]
      sample_scan sample_run)

text \<open>
  A date that is not in the document, for a symbol the quote provider knows and for one
  it reports as not found.
\<close>

theorem projectGains_quote_failure_first_witness:
  "snd (projectGains sampleEnv ''Non Existent'' ''10'' ''2022-11-25'') =
     Errors [NotFoundError ''stock_name'' ''Non Existent'']
   \<and> snd (projectGainsInline sampleEnv ''Non Existent'' ''10'' ''2022-11-25'') =
     Errors [NotFoundError ''stock_name'' ''Non Existent'']
   \<and> snd (projectGains sampleEnv ''ibm'' ''10'' ''2022-11-25'') =
     Errors [NotFoundError ''purchasedAt'' ''2022-11-25'']
   \<and> snd (projectGainsInline sampleEnv ''ibm'' ''10'' ''2022-11-25'') =
     Errors [NotFoundError ''purchasedAt'' ''2022-11-25'']"
proof -
  have v: "getValidationErrors sampleEnv (gainsChecks ''Non Existent'' ''10'' ''2022-11-25'') = None"
    "getValidationErrors sampleEnv (gainsChecks ''ibm'' ''10'' ''2022-11-25'') = None"
    by (simp_all add: sample_gains_valid)
  show ?thesis
    using projectGains_quote_failure_first[OF v(1),
        of "[NotFoundError ''stock_name'' ''Non Existent'']"]
      projectGains_quote_failure_first[OF v(2), of _
        "\<lparr>GetStockBySymbol.name = ''IBM'', lastPrice = Fin 3383329220062085 (- 48),
          pricedAt = ''2000-01-01T00:00:00.000Z''\<rparr>"
        "[NotFoundError ''from'' ''2022-11-25'', NotFoundError ''to'' ''2022-11-25'']"]
    by (simp add: sample_quote_missing sample_quote_ibm sample_history_25_other
        didNotFindDate_def)
qed

text \<open>
  Both lookups fail: the quote provider does not know the symbol and the date is not in
  the document. The caller receives the quote's failure, not the history's.
\<close>

theorem projectGains_quote_failure_first_counterexample:
  "snd (getStockBySymbol sampleEnv ''Non Existent'') =
     Errors [NotFoundError ''stock_name'' ''Non Existent'']
   \<and> snd (getStockHistoryBySymbol sampleEnv ''Non Existent'' ''2022-11-25'' ''2022-11-25'') =
     Errors [NotFoundError ''from'' ''2022-11-25'', NotFoundError ''to'' ''2022-11-25'']
   \<and> snd (getStockHistoryBySymbolInline sampleEnv ''Non Existent'' ''2022-11-25'' ''2022-11-25'') =
     Errors [NotFoundError ''from'' ''2022-11-25'', NotFoundError ''to'' ''2022-11-25'']
   \<and> snd (projectGains sampleEnv ''Non Existent'' ''10'' ''2022-11-25'') =
     Errors [NotFoundError ''stock_name'' ''Non Existent'']
   \<and> snd (projectGainsInline sampleEnv ''Non Existent'' ''10'' ''2022-11-25'') =
     Errors [NotFoundError ''stock_name'' ''Non Existent'']
   \<and> snd (projectGains sampleEnv ''Non Existent'' ''10'' ''2022-11-25'') \<noteq>
     Errors [NotFoundError ''purchasedAt'' ''2022-11-25'']
   \<and> snd (projectGainsInline sampleEnv ''Non Existent'' ''10'' ''2022-11-25'') \<noteq>
     Errors [NotFoundError ''purchasedAt'' ''2022-11-25'']"
  by (simp add: projectGains_valid[OF sample_gains_valid] sample_quote_missing
      sample_history_25_other awaitBoth_def combineGains_def combineGainsInline_def
      didNotFindDate_def)

text \<open>The request of the test suite for a date that is not in the document.\<close>

theorem projectGains_date_not_found_witness:
  "snd (projectGains sampleEnv ''ibm'' ''10'' ''2022-11-25'') =
     Errors [NotFoundError ''purchasedAt'' ''2022-11-25'']
   \<and> snd (projectGainsInline sampleEnv ''ibm'' ''10'' ''2022-11-25'') =
     Errors [NotFoundError ''purchasedAt'' ''2022-11-25'']"
proof -
  have v: "getValidationErrors sampleEnv (gainsChecks ''ibm'' ''10'' ''2022-11-25'') = None"
    by (simp add: sample_gains_valid)
  have q: "snd (getStockBySymbol sampleEnv ''ibm'') =
       ControllerSuccess
         \<lparr>GetStockBySymbol.name = ''IBM'', lastPrice = Fin 3383329220062085 (- 48),
          pricedAt = ''2000-01-01T00:00:00.000Z''\<rparr>"
    by (simp add: sample_quote_ibm)
  show ?thesis
    using projectGains_date_not_found[OF v q] by (simp add: sample_history_25_other)
qed

text \<open>
  The history lookup fails with the two errors for the date, and the quote provider fails
  too, for a reason of its own: the caller receives \<open>Unknown\<close>.
\<close>

theorem projectGains_date_not_found_counterexample:
  "snd (getStockHistoryBySymbol sampleEnv ''acme'' ''2022-11-25'' ''2022-11-25'') =
     Errors [NotFoundError ''from'' ''2022-11-25'', NotFoundError ''to'' ''2022-11-25'']
   \<and> snd (getStockHistoryBySymbolInline sampleEnv ''acme'' ''2022-11-25'' ''2022-11-25'') =
     Errors [NotFoundError ''from'' ''2022-11-25'', NotFoundError ''to'' ''2022-11-25'']
   \<and> snd (projectGains sampleEnv ''acme'' ''10'' ''2022-11-25'') = Errors [UnknownError]
   \<and> snd (projectGainsInline sampleEnv ''acme'' ''10'' ''2022-11-25'') = Errors [UnknownError]"
  by (simp add: projectGains_valid[OF sample_gains_valid] sample_quote_acme
      sample_history_25_other awaitBoth_def combineGains_def combineGainsInline_def
      didNotFindDate_def)


section \<open>Validation and names\<close>

lemma getStockBySymbol_calls:
  "set (fst (getStockBySymbol env x)) \<subseteq> {Validate [(STRING, ''stock_name'', [x])], Yahoo x}"
  by (simp add: getStockBySymbol_def Let_def split: option.split)

lemma getStockBySymbol_rejected:
  "getValidationErrors env [(STRING, ''stock_name'', [x])] = Some es \<Longrightarrow>
   getStockBySymbol env x = ([Validate [(STRING, ''stock_name'', [x])]], Errors es)"
  by (simp add: getStockBySymbol_def)

text \<open>
  Claim C9, amended. The quote lookup, the history window and the gains projection
  return the validator's error list as it is and call no provider when the validator
  rejects their parameters, in both controller files. The comparison has no validation
  of its own: for each symbol the validator rejects with a non-empty list, the quote
  provider is not called for that symbol and the list stands, in one piece, in the
  comparison's failure; the other symbols are still looked up.
\<close>

theorem validation_errors_returned:
  "(getValidationErrors env [(STRING, ''stock_name'', [s])] = Some es \<longrightarrow>
      getStockBySymbol env s = ([Validate [(STRING, ''stock_name'', [s])]], Errors es))
   \<and> (getValidationErrors env (historyChecks s f t) = Some es \<longrightarrow>
      getStockHistoryBySymbol env s f t = ([Validate (historyChecks s f t)], Errors es) \<and>
      getStockHistoryBySymbolInline env s f t = ([Validate (historyChecks s f t)], Errors es))
   \<and> (getValidationErrors env (gainsChecks s a d) = Some es \<longrightarrow>
      projectGains env s a d = ([Validate (gainsChecks s a d)], Errors es) \<and>
      projectGainsInline env s a d = ([Validate (gainsChecks s a d)], Errors es))
   \<and> (x \<in> set (s # stocks) \<longrightarrow>
      getValidationErrors env [(STRING, ''stock_name'', [x])] = Some es \<longrightarrow> es \<noteq> [] \<longrightarrow>
      Yahoo x \<notin> set (fst (compareStockBySymbols env s stocks)) \<and>
      (\<exists>before after. snd (compareStockBySymbols env s stocks) = Errors (before @ es @ after)))"
proof (intro conjI impI)
  assume "getValidationErrors env [(STRING, ''stock_name'', [s])] = Some es"
  then show "getStockBySymbol env s = ([Validate [(STRING, ''stock_name'', [s])]], Errors es)"
    by (rule getStockBySymbol_rejected)
next
  assume "getValidationErrors env (historyChecks s f t) = Some es"
  then show "getStockHistoryBySymbol env s f t = ([Validate (historyChecks s f t)], Errors es)"
    and "getStockHistoryBySymbolInline env s f t = ([Validate (historyChecks s f t)], Errors es)"
    by (simp_all add: getStockHistoryBySymbol_def getStockHistoryBySymbolInline_def)
next
  assume "getValidationErrors env (gainsChecks s a d) = Some es"
  then show "projectGains env s a d = ([Validate (gainsChecks s a d)], Errors es)"
    and "projectGainsInline env s a d = ([Validate (gainsChecks s a d)], Errors es)"
    by (simp_all add: projectGains_def projectGainsInline_def)
next
  assume x: "x \<in> set (s # stocks)"
    and r: "getValidationErrors env [(STRING, ''stock_name'', [x])] = Some es"
    and ne: "es \<noteq> []"
  have gx: "getStockBySymbol env x = ([Validate [(STRING, ''stock_name'', [x])]], Errors es)"
    using r by (rule getStockBySymbol_rejected)
  show "Yahoo x \<notin> set (fst (compareStockBySymbols env s stocks))"
  proof
    assume "Yahoo x \<in> set (fst (compareStockBySymbols env s stocks))"
    then obtain y where "Yahoo x \<in> set (fst (getStockBySymbol env y))"
      by (auto simp: compareStockBySymbols_eq)
    moreover from this have "y = x" using getStockBySymbol_calls[of env y] by auto
    ultimately show False using gx by simp
  qed
  from x obtain xs1 xs2 where split: "s # stocks = xs1 @ x # xs2"
    by (meson split_list)
  let ?E = "\<lambda>xs. concat (map (\<lambda>s. errorsOf (snd (getStockBySymbol env s))) xs)"
  have E: "?E (s # stocks) = ?E xs1 @ es @ ?E xs2"
    unfolding split using gx by (simp add: errorsOf_def)
  with ne have "?E (s # stocks) \<noteq> []" by simp
  then have "snd (compareStockBySymbols env s stocks) = Errors (?E (s # stocks))"
    by (simp add: compareStockBySymbols_eq)
  with E have "snd (compareStockBySymbols env s stocks) = Errors (?E xs1 @ es @ ?E xs2)"
    by simp
  then show "\<exists>before after. snd (compareStockBySymbols env s stocks) = Errors (before @ es @ after)"
    by blast
qed

text \<open>The sample validator rejects the empty symbol, everywhere.\<close>

theorem validation_errors_returned_witness:
  "getStockBySymbol sampleEnv [] =
     ([Validate [(STRING, ''stock_name'', [[]])]], Errors [OtherError ''stock_name''])
   \<and> getStockHistoryBySymbol sampleEnv [] ''2022-11-18'' ''2022-11-22'' =
     ([Validate (historyChecks [] ''2022-11-18'' ''2022-11-22'')],
      Errors [OtherError ''stock_name''])
   \<and> getStockHistoryBySymbolInline sampleEnv [] ''2022-11-18'' ''2022-11-22'' =
     ([Validate (historyChecks [] ''2022-11-18'' ''2022-11-22'')],
      Errors [OtherError ''stock_name''])
   \<and> projectGains sampleEnv [] ''10'' ''2022-11-22'' =
     ([Validate (gainsChecks [] ''10'' ''2022-11-22'')], Errors [OtherError ''stock_name''])
   \<and> projectGainsInline sampleEnv [] ''10'' ''2022-11-22'' =
     ([Validate (gainsChecks [] ''10'' ''2022-11-22'')], Errors [OtherError ''stock_name''])
   \<and> Yahoo [] \<notin> set (fst (compareStockBySymbols sampleEnv ''ibm'' [[]]))
   \<and> (\<exists>before after. snd (compareStockBySymbols sampleEnv ''ibm'' [[]]) =
        Errors (before @ [OtherError ''stock_name''] @ after))"
proof -
  have v: "getValidationErrors sampleEnv [(STRING, ''stock_name'', [[]])] =
             Some [OtherError ''stock_name'']"
    "getValidationErrors sampleEnv (historyChecks [] ''2022-11-18'' ''2022-11-22'') =
             Some [OtherError ''stock_name'']"
    "getValidationErrors sampleEnv (gainsChecks [] ''10'' ''2022-11-22'') =
             Some [OtherError ''stock_name'']"
    by (simp_all add: sampleEnv_def sampleValidate_def historyChecks_def gainsChecks_def)
  show ?thesis
    using validation_errors_returned[of sampleEnv "[]" "[OtherError ''stock_name'']"
        "''2022-11-18''" "''2022-11-22''" "''10''" "''2022-11-22''"]
      validation_errors_returned[of sampleEnv "[]" "[OtherError ''stock_name'']"
        "''2022-11-18''" "''2022-11-22''" "''10''" "''2022-11-22''" "[]" "[[]]"]
      validation_errors_returned[of sampleEnv "''ibm''" "[OtherError ''stock_name'']"
        "''2022-11-18''" "''2022-11-22''" "''10''" "''2022-11-22''" "[]" "[[]]"]
    by (simp add: v)
qed

text \<open>
  A comparison of a symbol the validator rejects with one the provider does not know: the
  provider is called for the second, and the result is more than the validator's list.
\<close>

theorem validation_errors_returned_counterexample:
  "getValidationErrors sampleEnv [(STRING, ''stock_name'', [[]])] =
     Some [OtherError ''stock_name'']
   \<and> compareStockBySymbols sampleEnv [] [''Non Existent''] =
     ([Validate [(STRING, ''stock_name'', [[]])],
       Validate [(STRING, ''stock_name'', [''Non Existent''])], Yahoo ''Non Existent''],
      Errors [OtherError ''stock_name'', NotFoundError ''stock_name'' ''Non Existent''])"
proof -
  have "getValidationErrors sampleEnv [(STRING, ''stock_name'', [[]])] =
          Some [OtherError ''stock_name'']"
    by (simp add: sampleEnv_def sampleValidate_def)
  then show ?thesis
    by (simp add: compareStockBySymbols_eq getStockBySymbol_rejected sample_quote_missing
        errorsOf_def)
qed

text \<open>
  Claim C10. The quote lookup succeeds exactly when its check passes, the provider returns
  a quote and its time can be printed, and the name it reports is the provider's \<open>symbol\<close>
  as it is. The history window, in both controller files, succeeds exactly when its checks
  pass, the stream is obtained, the scan gives a text, and the text is parsed and
  formatted, and the name it reports is \<open>stock_name.toUpperCase()\<close>, whatever the caller's
  casing. The gains projection, in both controller files, succeeds exactly when its checks
  pass, both lookups succeed, the history holds a first point and the date can be
  printed, and the name it reports is \<open>stock_name.toUpperCase()\<close> too, not the name of
  either lookup.
\<close>

theorem names_reported:
  "((snd (getStockBySymbol env s) = ControllerSuccess q) =
      (getValidationErrors env [(STRING, ''stock_name'', [s])] = None \<and>
       (\<exists>y isoText.
          yahooGetStockBySymbol env s = Inr y \<and>
          DateOfMillis_toISOString env (regularMarketTime y * 1000) = Some isoText \<and>
          q = \<lparr>GetStockBySymbol.name = symbol y, lastPrice = regularMarketPrice y,
               pricedAt = isoText\<rparr>)))
   \<and> ((snd (getStockHistoryBySymbol env s f t) = ControllerSuccess h) =
      (getValidationErrors env (historyChecks s f t) = None \<and>
       (\<exists>historyStream formated.
          getStockHistoryAsStream env s = Some historyStream \<and>
          searchTimeIntervalInHistory env historyStream f t = Inr formated \<and>
          h = \<lparr>GetStockHistoryBySymbol.name = toUpperCase env s, prices = formated\<rparr>)))
   \<and> ((snd (getStockHistoryBySymbolInline env s f t) = ControllerSuccess h') =
      (getValidationErrors env (historyChecks s f t) = None \<and>
       (\<exists>historyStream toText fromText stringResult rawPricesObj pricesObj.
          getStockHistoryAsStream env s = Some historyStream \<and>
          Date_toISOString env t = Some toText \<and>
          Date_toISOString env f = Some fromText \<and>
          runStream (split_T_0 toText) (split_T_0 fromText)
            \<lparr>reading = False, ending = False\<rparr> ''{'' historyStream = Some stringResult \<and>
          stringResult @ ''}'' \<noteq> ''{}'' \<and>
          JSON_parse env (stringResult @ ''}'') = Some rawPricesObj \<and>
          formatJSONHistoryObject env rawPricesObj = Some pricesObj \<and>
          h' = \<lparr>GetStockHistoryBySymbol.name = toUpperCase env s, prices = pricesObj\<rparr>)))
   \<and> ((snd (projectGains env s a d) = ControllerSuccess g) =
      (getValidationErrors env (gainsChecks s a d) = None \<and>
       (\<exists>today onDate p rest isoText.
          snd (getStockBySymbol env s) = ControllerSuccess today \<and>
          snd (getStockHistoryBySymbol env s d d) = ControllerSuccess onDate \<and>
          prices onDate = p # rest \<and> Date_toISOString env d = Some isoText \<and>
          g =
            \<lparr>GetProjectedGains.name = toUpperCase env s,
             lastPrice = GetStockBySymbol.lastPrice today, priceAtDate = closing p,
             purchasedAmount = NumberOfString env a, purchasedAt = isoText,
             capitalGains =
               Number_toFixed2
                 (js_sub (js_mul (GetStockBySymbol.lastPrice today) (NumberOfString env a))
                         (js_mul (closing p) (NumberOfString env a)))\<rparr>)))
   \<and> ((snd (projectGainsInline env s a d) = ControllerSuccess g') =
      (getValidationErrors env (gainsChecks s a d) = None \<and>
       (\<exists>today onDate p rest isoText.
          snd (getStockBySymbol env s) = ControllerSuccess today \<and>
          snd (getStockHistoryBySymbolInline env s d d) = ControllerSuccess onDate \<and>
          prices onDate = p # rest \<and> Date_toISOString env d = Some isoText \<and>
          g' =
            \<lparr>GetProjectedGains.name = toUpperCase env s,
             lastPrice = GetStockBySymbol.lastPrice today, priceAtDate = closing p,
             purchasedAmount = NumberOfString env a, purchasedAt = isoText,
             capitalGains =
               Number_toFixed2
                 (js_sub (js_mul (GetStockBySymbol.lastPrice today) (NumberOfString env a))
                         (js_mul (closing p) (NumberOfString env a)))\<rparr>)))"
proof (intro conjI)
  show "(snd (getStockBySymbol env s) = ControllerSuccess q) =
      (getValidationErrors env [(STRING, ''stock_name'', [s])] = None \<and>
       (\<exists>y isoText.
          yahooGetStockBySymbol env s = Inr y \<and>
          DateOfMillis_toISOString env (regularMarketTime y * 1000) = Some isoText \<and>
          q = \<lparr>GetStockBySymbol.name = symbol y, lastPrice = regularMarketPrice y,
               pricedAt = isoText\<rparr>))"
    by (auto simp: getStockBySymbol_def Let_def split: option.splits sum.splits if_splits)
next
  show "(snd (getStockHistoryBySymbol env s f t) = ControllerSuccess h) =
      (getValidationErrors env (historyChecks s f t) = None \<and>
       (\<exists>historyStream formated.
          getStockHistoryAsStream env s = Some historyStream \<and>
          searchTimeIntervalInHistory env historyStream f t = Inr formated \<and>
          h = \<lparr>GetStockHistoryBySymbol.name = toUpperCase env s, prices = formated\<rparr>))"
    by (auto simp: getStockHistoryBySymbol_def Let_def split: option.splits sum.splits if_splits)
next
  show "(snd (getStockHistoryBySymbolInline env s f t) = ControllerSuccess h') =
      (getValidationErrors env (historyChecks s f t) = None \<and>
       (\<exists>historyStream toText fromText stringResult rawPricesObj pricesObj.
          getStockHistoryAsStream env s = Some historyStream \<and>
          Date_toISOString env t = Some toText \<and>
          Date_toISOString env f = Some fromText \<and>
          runStream (split_T_0 toText) (split_T_0 fromText)
            \<lparr>reading = False, ending = False\<rparr> ''{'' historyStream = Some stringResult \<and>
          stringResult @ ''}'' \<noteq> ''{}'' \<and>
          JSON_parse env (stringResult @ ''}'') = Some rawPricesObj \<and>
          formatJSONHistoryObject env rawPricesObj = Some pricesObj \<and>
          h' = \<lparr>GetStockHistoryBySymbol.name = toUpperCase env s, prices = pricesObj\<rparr>))"
    by (auto simp: getStockHistoryBySymbolInline_def onPause_def Let_def
        split: option.splits if_splits)
next
  show "(snd (projectGains env s a d) = ControllerSuccess g) =
      (getValidationErrors env (gainsChecks s a d) = None \<and>
       (\<exists>today onDate p rest isoText.
          snd (getStockBySymbol env s) = ControllerSuccess today \<and>
          snd (getStockHistoryBySymbol env s d d) = ControllerSuccess onDate \<and>
          prices onDate = p # rest \<and> Date_toISOString env d = Some isoText \<and>
          g =
            \<lparr>GetProjectedGains.name = toUpperCase env s,
             lastPrice = GetStockBySymbol.lastPrice today, priceAtDate = closing p,
             purchasedAmount = NumberOfString env a, purchasedAt = isoText,
             capitalGains =
               Number_toFixed2
                 (js_sub (js_mul (GetStockBySymbol.lastPrice today) (NumberOfString env a))
                         (js_mul (closing p) (NumberOfString env a)))\<rparr>))"
    (is "?L = (?V \<and> ?R)")
  proof
    assume l: ?L
    have v: ?V
    proof (cases "getValidationErrors env (gainsChecks s a d)")
      case (Some es)
      with l show ?thesis by (simp add: projectGains_def)
    qed simp
    from projectGains_success[OF l] obtain today onDate
      where lookups: "snd (getStockBySymbol env s) = ControllerSuccess today"
        "snd (getStockHistoryBySymbol env s d d) = ControllerSuccess onDate"
        and assembled: "assembleGains env s a d today onDate = ControllerSuccess g"
      by blast
    from assembled obtain p rest isoText
      where "prices onDate = p # rest" and "Date_toISOString env d = Some isoText"
        and "g =
            \<lparr>GetProjectedGains.name = toUpperCase env s,
             lastPrice = GetStockBySymbol.lastPrice today, priceAtDate = closing p,
             purchasedAmount = NumberOfString env a, purchasedAt = isoText,
             capitalGains =
               Number_toFixed2
                 (js_sub (js_mul (GetStockBySymbol.lastPrice today) (NumberOfString env a))
                         (js_mul (closing p) (NumberOfString env a)))\<rparr>"
      by (cases "prices onDate"; cases "Date_toISOString env d") (auto simp: assembleGains_def)
    with lookups have ?R by blast
    with v show "?V \<and> ?R" ..
  next
    assume "?V \<and> ?R"
    then show ?L
      by (auto simp: projectGains_def awaitBoth_def combineGains_def assembleGains_def Let_def
          split: prod.splits)
  qed
next
  show "(snd (projectGainsInline env s a d) = ControllerSuccess g') =
      (getValidationErrors env (gainsChecks s a d) = None \<and>
       (\<exists>today onDate p rest isoText.
          snd (getStockBySymbol env s) = ControllerSuccess today \<and>
          snd (getStockHistoryBySymbolInline env s d d) = ControllerSuccess onDate \<and>
          prices onDate = p # rest \<and> Date_toISOString env d = Some isoText \<and>
          g' =
            \<lparr>GetProjectedGains.name = toUpperCase env s,
             lastPrice = GetStockBySymbol.lastPrice today, priceAtDate = closing p,
             purchasedAmount = NumberOfString env a, purchasedAt = isoText,
             capitalGains =
               Number_toFixed2
                 (js_sub (js_mul (GetStockBySymbol.lastPrice today) (NumberOfString env a))
                         (js_mul (closing p) (NumberOfString env a)))\<rparr>))"
    (is "?L = (?V \<and> ?R)")
  proof
    assume l: ?L
    have v: ?V
    proof (cases "getValidationErrors env (gainsChecks s a d)")
      case (Some es)
      with l show ?thesis by (simp add: projectGainsInline_def)
    qed simp
    from projectGainsInline_success[OF l] obtain today onDate
      where lookups: "snd (getStockBySymbol env s) = ControllerSuccess today"
        "snd (getStockHistoryBySymbolInline env s d d) = ControllerSuccess onDate"
        and assembled: "assembleGains env s a d today onDate = ControllerSuccess g'"
      by blast
    from assembled obtain p rest isoText
      where "prices onDate = p # rest" and "Date_toISOString env d = Some isoText"
        and "g' =
            \<lparr>GetProjectedGains.name = toUpperCase env s,
             lastPrice = GetStockBySymbol.lastPrice today, priceAtDate = closing p,
             purchasedAmount = NumberOfString env a, purchasedAt = isoText,
             capitalGains =
               Number_toFixed2
                 (js_sub (js_mul (GetStockBySymbol.lastPrice today) (NumberOfString env a))
                         (js_mul (closing p) (NumberOfString env a)))\<rparr>"
      by (cases "prices onDate"; cases "Date_toISOString env d") (auto simp: assembleGains_def)
    with lookups have ?R by blast
    with v show "?V \<and> ?R" ..
  next
    assume "?V \<and> ?R"
    then show ?L
      by (auto simp: projectGainsInline_def awaitBoth_def combineGainsInline_def
          assembleGains_def Let_def split: prod.splits)
  qed
qed


text \<open>The request of the test suite for \<open>ibm\<close> on the first day of the document.\<close>

lemma sample_gains_arithmetic:
  "Number_toFixed2
     (js_sub (js_mul (Fin 3383329220062085 (- 48)) (Fin 5 1))
             (js_mul (Fin 5245989878444851 (- 45)) (Fin 5 1))) =
   Fin (- 6028842157421363) (- 42)"
  by code_simp

lemma sample_gains_22:
  "snd (projectGains sampleEnv ''ibm'' ''10'' ''2022-11-22'') =
     ControllerSuccess
       \<lparr>GetProjectedGains.name = ''IBM'', lastPrice = Fin 3383329220062085 (- 48),
        priceAtDate = Fin 5245989878444851 (- 45), purchasedAmount = Fin 5 1,
        purchasedAt = ''2022-11-22T00:00:00.000Z'',
        capitalGains = Fin (- 6028842157421363) (- 42)\<rparr>"
  "snd (projectGainsInline sampleEnv ''ibm'' ''10'' ''2022-11-22'') =
     ControllerSuccess
       \<lparr>GetProjectedGains.name = ''IBM'', lastPrice = Fin 3383329220062085 (- 48),
        priceAtDate = Fin 5245989878444851 (- 45), purchasedAmount = Fin 5 1,
        purchasedAt = ''2022-11-22T00:00:00.000Z'',
        capitalGains = Fin (- 6028842157421363) (- 42)\<rparr>"
proof -
  have n: "NumberOfString sampleEnv ''10'' = Fin 5 1"
    by (simp add: sampleEnv_def sampleNumberOfString_def sampleDecimals_def)
  have u: "toUpperCase sampleEnv ''ibm'' = ''IBM''"
    by (simp add: sampleEnv_def sample_upper)
  have "assembleGains sampleEnv ''ibm'' ''10'' ''2022-11-22''
          \<lparr>GetStockBySymbol.name = ''IBM'', lastPrice = Fin 3383329220062085 (- 48),
           pricedAt = ''2000-01-01T00:00:00.000Z''\<rparr>
          \<lparr>GetStockHistoryBySymbol.name = ''IBM'', prices = [point22]\<rparr> =
        ControllerSuccess
          \<lparr>GetProjectedGains.name = ''IBM'', lastPrice = Fin 3383329220062085 (- 48),
           priceAtDate = Fin 5245989878444851 (- 45), purchasedAmount = Fin 5 1,
           purchasedAt = ''2022-11-22T00:00:00.000Z'',
           capitalGains = Fin (- 6028842157421363) (- 42)\<rparr>"
    by (simp add: assembleGains_def n u sample_date point22_def sample_gains_arithmetic
        del: js_mul.simps js_sub.simps Number_toFixed2.simps)
  then show
    "snd (projectGains sampleEnv ''ibm'' ''10'' ''2022-11-22'') =
     ControllerSuccess
       \<lparr>GetProjectedGains.name = ''IBM'', lastPrice = Fin 3383329220062085 (- 48),
        priceAtDate = Fin 5245989878444851 (- 45), purchasedAmount = Fin 5 1,
        purchasedAt = ''2022-11-22T00:00:00.000Z'',
        capitalGains = Fin (- 6028842157421363) (- 42)\<rparr>"
    "snd (projectGainsInline sampleEnv ''ibm'' ''10'' ''2022-11-22'') =
     ControllerSuccess
       \<lparr>GetProjectedGains.name = ''IBM'', lastPrice = Fin 3383329220062085 (- 48),
        priceAtDate = Fin 5245989878444851 (- 45), purchasedAmount = Fin 5 1,
        purchasedAt = ''2022-11-22T00:00:00.000Z'',
        capitalGains = Fin (- 6028842157421363) (- 42)\<rparr>"
    by (simp_all add: projectGains_valid[OF sample_gains_valid] sample_quote_ibm
        sample_history_22 awaitBoth_def combineGains_def combineGainsInline_def)
qed

text \<open>
  The request of the test suite for \<open>ibm\<close> in lower case: the quote reports the provider's
  \<open>IBM\<close>, the history and the gains report the upper case of the caller's \<open>ibm\<close>.
\<close>

lemma sample_day: "split_T_0 ''2022-11-22T00:00:00.000Z'' = ''2022-11-22''"
  by code_simp

lemma sample_search_22:
  "searchTimeIntervalInHistory sampleEnv sampleDocument ''2022-11-22'' ''2022-11-22'' =
     Inr [point22]"
  by (simp add: searchTimeIntervalInHistory_def sample_date sample_day sample_scan
      sample_parse sample_format)

lemma sample_numbers:
  "NumberOfString sampleEnv ''10'' = Fin 5 1"
  "toUpperCase sampleEnv ''ibm'' = ''IBM''"
  "closing point22 = Fin 5245989878444851 (- 45)"
  by (simp_all add: sampleEnv_def sampleNumberOfString_def sampleDecimals_def sample_upper
      point22_def)

theorem names_reported_witness:
  "snd (getStockBySymbol sampleEnv ''ibm'') =
     ControllerSuccess
       \<lparr>GetStockBySymbol.name = ''IBM'', lastPrice = Fin 3383329220062085 (- 48),
        pricedAt = ''2000-01-01T00:00:00.000Z''\<rparr>
   \<and> snd (getStockHistoryBySymbol sampleEnv ''ibm'' ''2022-11-22'' ''2022-11-22'') =
     ControllerSuccess \<lparr>GetStockHistoryBySymbol.name = ''IBM'', prices = [point22]\<rparr>
   \<and> snd (getStockHistoryBySymbolInline sampleEnv ''ibm'' ''2022-11-22'' ''2022-11-22'') =
     ControllerSuccess \<lparr>GetStockHistoryBySymbol.name = ''IBM'', prices = [point22]\<rparr>
   \<and> snd (projectGains sampleEnv ''ibm'' ''10'' ''2022-11-22'') =
     ControllerSuccess
       \<lparr>GetProjectedGains.name = ''IBM'', lastPrice = Fin 3383329220062085 (- 48),
        priceAtDate = Fin 5245989878444851 (- 45), purchasedAmount = Fin 5 1,
        purchasedAt = ''2022-11-22T00:00:00.000Z'',
        capitalGains = Fin (- 6028842157421363) (- 42)\<rparr>
   \<and> snd (projectGainsInline sampleEnv ''ibm'' ''10'' ''2022-11-22'') =
     ControllerSuccess
       \<lparr>GetProjectedGains.name = ''IBM'', lastPrice = Fin 3383329220062085 (- 48),
        priceAtDate = Fin 5245989878444851 (- 45), purchasedAmount = Fin 5 1,
        purchasedAt = ''2022-11-22T00:00:00.000Z'',
        capitalGains = Fin (- 6028842157421363) (- 42)\<rparr>"
proof -
  let ?q = "\<lparr>GetStockBySymbol.name = ''IBM'', lastPrice = Fin 3383329220062085 (- 48),
             pricedAt = ''2000-01-01T00:00:00.000Z''\<rparr>"
  let ?h = "\<lparr>GetStockHistoryBySymbol.name = ''IBM'', prices = [point22]\<rparr>"
  let ?g = "\<lparr>GetProjectedGains.name = ''IBM'', lastPrice = Fin 3383329220062085 (- 48),
        priceAtDate = Fin 5245989878444851 (- 45), purchasedAmount = Fin 5 1,
        purchasedAt = ''2022-11-22T00:00:00.000Z'',
        capitalGains = Fin (- 6028842157421363) (- 42)\<rparr>"
  note reported =
    names_reported[where env = sampleEnv and s = "''ibm''" and f = "''2022-11-22''"
      and t = "''2022-11-22''" and a = "''10''" and d = "''2022-11-22''" and q = ?q
      and h = ?h and h' = ?h and g = ?g and g' = ?g]
  have checks:
    "getValidationErrors sampleEnv [(STRING, ''stock_name'', [''ibm''])] = None"
    "getValidationErrors sampleEnv (historyChecks ''ibm'' ''2022-11-22'' ''2022-11-22'') = None"
    "getValidationErrors sampleEnv (gainsChecks ''ibm'' ''10'' ''2022-11-22'') = None"
    by (simp_all add: sample_history_valid sample_gains_valid)
      (simp add: sampleEnv_def sampleValidate_def)
  have provider:
    "yahooGetStockBySymbol sampleEnv ''ibm'' =
       Inr \<lparr>symbol = ''IBM'', regularMarketPrice = Fin 3383329220062085 (- 48),
            regularMarketTime = 946684800\<rparr>"
    "DateOfMillis_toISOString sampleEnv (946684800 * 1000) = Some ''2000-01-01T00:00:00.000Z''"
    by (simp_all add: sampleEnv_def sampleYahoo_def sampleDateOfMillis_def)
  have date: "Date_toISOString sampleEnv ''2022-11-22'' = Some ''2022-11-22T00:00:00.000Z''"
    by (simp add: sample_date)
  have quote: "snd (getStockBySymbol sampleEnv ''ibm'') = ControllerSuccess ?q"
    using provider by (intro iffD2[OF reported[THEN conjunct1]]) (simp add: checks)
  have history:
    "snd (getStockHistoryBySymbol sampleEnv ''ibm'' ''2022-11-22'' ''2022-11-22'') =
       ControllerSuccess ?h"
    by (rule iffD2[OF reported[THEN conjunct2, THEN conjunct1]])
      (simp add: checks sample_stream_ibm sample_search_22 sample_numbers)
  have inline:
    "snd (getStockHistoryBySymbolInline sampleEnv ''ibm'' ''2022-11-22'' ''2022-11-22'') =
       ControllerSuccess ?h"
    by (rule iffD2[OF reported[THEN conjunct2, THEN conjunct2, THEN conjunct1]])
      (simp add: checks sample_stream_ibm date sample_day sample_run sample_parse sample_format
        sample_numbers)
  have gains: "snd (projectGains sampleEnv ''ibm'' ''10'' ''2022-11-22'') = ControllerSuccess ?g"
    by (rule iffD2[OF reported[THEN conjunct2, THEN conjunct2, THEN conjunct2, THEN conjunct1]])
      (simp add: checks quote history date sample_numbers sample_gains_arithmetic
        del: js_mul.simps js_sub.simps Number_toFixed2.simps)
  have gainsInline:
    "snd (projectGainsInline sampleEnv ''ibm'' ''10'' ''2022-11-22'') = ControllerSuccess ?g"
    by (rule iffD2[OF reported[THEN conjunct2, THEN conjunct2, THEN conjunct2, THEN conjunct2]])
      (simp add: checks quote inline date sample_numbers sample_gains_arithmetic
        del: js_mul.simps js_sub.simps Number_toFixed2.simps)
  from quote history inline gains gainsInline show ?thesis by simp
qed

section \<open>The capital gains\<close>











section \<open>The last record and the single day, in general\<close>

text \<open>
  With \<open>HistorySearcher\<close>, when the closing line of the window does not end with a comma,
  as for the last record of a document, nothing is removed: the scan resolves with the
  lines of the window between braces.
\<close>

lemma scanStreamForTimeInterval_last_record:
  assumes "\<forall>l\<in>set pre. \<not> didntFoundStockInDatabase l \<and> \<not> foundStartOfWantedInterval l fd"
    and "\<forall>l\<in>set (w1 @ w2 @ [c]). \<not> didntFoundStockInDatabase l"
    and "foundStartOfWantedInterval (hd (w1 @ w2 @ [c])) fd"
    and "\<forall>l\<in>set w1. \<not> foundEndOfWantedInterval l ld"
    and "foundEndOfWantedInterval (hd (w2 @ [c])) ld"
    and "\<forall>l\<in>set w2. \<not> includes_str l ''}''"
    and "includes_str c ''}''"
    and "last c \<noteq> CHR '',''"
  shows "scanStreamForTimeInterval (pre @ w1 @ w2 @ c # post) fd ld =
           Inr (''{'' @ concat (w1 @ w2 @ [c]) @ ''}'')"
proof -
  have "c \<noteq> []" using assms(7) by auto
  then have "last (''{'' @ concat (w1 @ w2 @ [c])) = last c" by simp
  with assms(8) have "removeLastCommaIfNecessary (''{'' @ concat (w1 @ w2 @ [c])) =
      ''{'' @ concat (w1 @ w2 @ [c])"
    by (simp only: removeLastCommaIfNecessary_conditional if_False simp_thms)
  with scanStreamForTimeInterval_window[OF assms(1-7), of post] show ?thesis by simp
qed

text \<open>
  A single day with \<open>HistorySearcher\<close>: the line that holds the date and an opening brace
  starts and ends the interval, the lines are gathered up to the first closing brace,
  and when the text parses to the one record of that day the result is its one point.
\<close>

lemma getStockHistoryBySymbol_single_day:
  assumes "getValidationErrors env (historyChecks s d d) = None"
    and "getStockHistoryAsStream env s = Some (pre @ w @ c # post)"
    and "Date_toISOString env d = Some dt"
    and "\<forall>l\<in>set pre. \<not> includes_str l ''Error Message'' \<and>
           \<not> (includes_str l (split_T_0 dt) \<and> includes_str l ''{'')"
    and "\<forall>l\<in>set (w @ [c]). \<not> includes_str l ''Error Message''"
    and "includes_str (hd (w @ [c])) (split_T_0 dt) \<and> includes_str (hd (w @ [c])) ''{''"
    and "\<forall>l\<in>set w. \<not> includes_str l ''}''"
    and "includes_str c ''}''"
    and "JSON_parse env (removeLastCommaIfNecessary (''{'' @ concat (w @ [c])) @ ''}'') =
           Some [(key, record)]"
    and "formatEntry env (key, record) = Some point"
  shows "snd (getStockHistoryBySymbol env s d d) =
           ControllerSuccess
             \<lparr>GetStockHistoryBySymbol.name = toUpperCase env s, prices = [point]\<rparr>"
  using getStockHistoryBySymbol_window[where ?w1.0 = "[]" and ?w2.0 = w and c = c and pre = pre
      and post = post and env = env and s = s and f = d and t = d and tt = dt and ft = dt
      and members = "[(key, record)]" and ps = "[point]"]
    assms
  by (simp add: formatJSONHistoryObject_def)

text \<open>
  The same in \<open>ApiController.ts\<close>, provided the closing line holds a brace followed by a
  comma, which the last record of a document does not.
\<close>

lemma getStockHistoryBySymbolInline_single_day:
  assumes "getValidationErrors env (historyChecks s d d) = None"
    and "getStockHistoryAsStream env s = Some (pre @ w @ c # post)"
    and "Date_toISOString env d = Some dt"
    and "\<forall>l\<in>set pre. \<not> includes_str l ''Error Message'' \<and>
           \<not> (includes_str l (split_T_0 dt) \<and> includes_str l ''{'')"
    and "\<forall>l\<in>set (w @ [c]). \<not> includes_str l ''Error Message''"
    and "includes_str (hd (w @ [c])) (split_T_0 dt) \<and> includes_str (hd (w @ [c])) ''{''"
    and "\<forall>l\<in>set w. \<not> includes_str l ''},''"
    and "includes_str c ''},''"
    and "JSON_parse env (slice_0_minus1 (''{'' @ concat (w @ [c])) @ ''}'') =
           Some [(key, record)]"
    and "formatEntry env (key, record) = Some point"
  shows "snd (getStockHistoryBySymbolInline env s d d) =
           ControllerSuccess
             \<lparr>GetStockHistoryBySymbol.name = toUpperCase env s, prices = [point]\<rparr>"
  using getStockHistoryBySymbolInline_window[where ?w1.0 = "[]" and ?w2.0 = w and c = c
      and pre = pre and post = post and env = env and s = s and f = d and t = d and tt = dt
      and ft = dt and members = "[(key, record)]" and ps = "[point]"]
    assms
  by (simp add: formatJSONHistoryObject_def)

end
